theory Spec2Isabelle
  imports Main
begin

section \<open>VVAuthService: the OAuth2 / PKCE login service\<close>

text \<open>
  A shallow embedding of \<^verbatim>\<open>src/services/auth/vv/VVAuthService.ts\<close>. The service is a
  singleton bound to a controller; \<^verbatim>\<open>getInstance\<close> refuses to hand out an instance whose
  controller is not set and the field is never reset, so the state below is that of an
  initialised service and \<^verbatim>\<open>requireController\<close> always succeeds.

  Every public operation is an \<^verbatim>\<open>async\<close> function. The model runs each call to
  completion: what the remote provider, the platform and the subscribers' streams answer
  during the call is given by an environment argument, and the calls made are recorded in
  the state.
\<close>

subsection \<open>Data\<close>

text \<open>A thrown JavaScript \<^verbatim>\<open>Error\<close>; the service only ever reads its message.\<close>

datatype error = Error (message: string)

text \<open>\<^verbatim>\<open>VVAuthInfo\<close>, the answer of the token exchange.\<close>

record VVAuthInfo =
  accessToken :: string
  userId :: int

text \<open>
  Modelled from the spec: the declaration of \<^verbatim>\<open>VVGroupItem\<close> (in
  \<^verbatim>\<open>shared/storage/state-keys\<close>) is not part of the sources at hand. The spec gives its fields as
  \<^verbatim>\<open>{ type, apiKey, defaultModelId, apiBaseUrl, isDefault }\<close>; the string fields that the
  service tests for presence or copies verbatim are optional here, \<open>None\<close> being
  \<^verbatim>\<open>undefined\<close>.
\<close>

record VVGroupItem =
  type :: string
  apiKey :: "string option"
  defaultModelId :: "string option"
  apiBaseUrl :: "string option"
  isDefault :: bool

type_synonym VVGroupConfig = "VVGroupItem list"

text \<open>
  The values kept in the host's general key-value state. \<^verbatim>\<open>VVUserInfo\<close> and
  \<^verbatim>\<open>VVUserConfig\<close> are opaque to the service (type parameters \<open>'u\<close> and \<open>'c\<close>).
\<close>

datatype ('u, 'c) val =
    VString string
  | VUserInfo 'u
  | VUserConfig 'c
  | VGroupConfig VVGroupConfig

text \<open>\<^verbatim>\<open>VVAuthState\<close>, the status sent to subscribers.\<close>

record 'u VVAuthState =
  user :: "'u option"

text \<open>A parsed \<^verbatim>\<open>URL\<close> object: everything before the query, and the query parameters in order.\<close>

record url =
  href :: string
  searchParams :: "(string \<times> string) list"

text \<open>The remote calls of \<^verbatim>\<open>VVAuthProvider\<close>, as recorded when the service makes them.\<close>

datatype call =
    ExchangeCodeForToken string string string
  | GetUserInfo string int
  | GetUserConfig string int
  | GetGroupTokens string int
  | Logout string

text \<open>
  What a subscriber's \<^verbatim>\<open>responseStream\<close> does with a message: the promise resolves, the
  promise rejects with an error, or the call itself throws one.
\<close>

datatype outcome = Delivered | Rejected error | Thrown error

fun isRejected :: "outcome \<Rightarrow> bool" where
  "isRejected (Rejected err) = True"
| "isRejected _ = False"

fun isThrown :: "outcome \<Rightarrow> bool" where
  "isThrown (Thrown err) = True"
| "isThrown _ = False"

text \<open>
  The state: the host's \<^verbatim>\<open>StateManager\<close> (caches and the keys written since the last
  flush), the extension context behind it (what is on disk), the private fields of the
  service, and the effects observed so far. A subscription object is identified by a
  number; the JavaScript \<^verbatim>\<open>Set\<close> of subscriptions iterates in insertion order and is a list
  without duplicates here.
\<close>

record ('u, 'c) state =
  globalStateCache :: "string \<rightharpoonup> ('u, 'c) val"
  secretsCache :: "string \<rightharpoonup> string"
  pendingGlobalState :: "string set"
  pendingSecrets :: "string set"
  globalState :: "string \<rightharpoonup> ('u, 'c) val"
  secrets :: "string \<rightharpoonup> string"
  authenticated :: bool
  activeAuthStatusUpdateSubscriptions :: "nat list"
  processingAuthCallback :: bool
  lastProcessedCode :: "string option"
  calls :: "call list"
  opened :: "url list"
  attempts :: "(nat \<times> 'u VVAuthState \<times> outcome) list"
  rejections :: "nat list"

text \<open>
  The environment of one call. \<^verbatim>\<open>VVAuthProvider\<close>, the helpers of \<^verbatim>\<open>shared/vv-crypto\<close>,
  \<^verbatim>\<open>openExternal\<close> and the platform's \<^verbatim>\<open>URL\<close> parser are not part of the sources at hand
  and depend on the network, on randomness or on the platform, so they are parameters:
  the answers of the provider (an error is a thrown \<^verbatim>\<open>Error\<close>), the state and verifier
  generated for this call, the challenge function, the URL parser, the browser launcher,
  the process environment variables, and the behaviour of each subscriber's stream.
\<close>

record ('u, 'c) env =
  exchangeCodeForToken :: "string \<Rightarrow> string \<Rightarrow> string \<Rightarrow> error + VVAuthInfo"
  getUserInfo :: "string \<Rightarrow> int \<Rightarrow> error + 'u"
  getUserConfig :: "string \<Rightarrow> int \<Rightarrow> error + 'c"
  getGroupTokens :: "string \<Rightarrow> int \<Rightarrow> error + VVGroupConfig"
  logout :: "string \<Rightarrow> error + unit"
  generateState :: string
  generateCodeVerifier :: string
  generateCodeChallenge :: "string \<Rightarrow> string"
  parseURL :: "string \<Rightarrow> error + url"
  openExternal :: "url \<Rightarrow> error + unit"
  process_env :: "string \<rightharpoonup> string"
  responseStream :: "nat \<Rightarrow> outcome"

subsection \<open>JavaScript helpers\<close>

text \<open>Truthiness of a \<^verbatim>\<open>string | undefined\<close>: neither \<^verbatim>\<open>undefined\<close> nor the empty string.\<close>

definition truthy :: "string option \<Rightarrow> bool" where
  "truthy v = (case v of None \<Rightarrow> False | Some x \<Rightarrow> x \<noteq> [])"

text \<open>\<^verbatim>\<open>String.prototype.includes\<close>: the pattern occurs as a contiguous substring.\<close>

fun startsWith :: "string \<Rightarrow> string \<Rightarrow> bool" where
  "startsWith s [] = True"
| "startsWith [] (p # ps) = False"
| "startsWith (c # cs) (p # ps) = (c = p \<and> startsWith cs ps)"

fun includes_str :: "string \<Rightarrow> string \<Rightarrow> bool" where
  "includes_str [] p = (p = [])"
| "includes_str (c # cs) p = (startsWith (c # cs) p \<or> includes_str cs p)"

text \<open>\<^verbatim>\<open>Array.prototype.find\<close>: the first element that satisfies the predicate.\<close>

fun find_first :: "('a \<Rightarrow> bool) \<Rightarrow> 'a list \<Rightarrow> 'a option" where
  "find_first P [] = None"
| "find_first P (x # xs) = (if P x then Some x else find_first P xs)"

text \<open>\<^verbatim>\<open>Number.prototype.toString\<close> on an integer: its decimal digits, with a sign.\<close>

function digits :: "nat \<Rightarrow> string" where
  "digits n = (if n < 10 then [''0123456789'' ! n] else digits (n div 10) @ [''0123456789'' ! (n mod 10)])"
  by pat_completeness auto
termination
  by (relation "measure id") auto

declare digits.simps [simp del]

definition toString :: "int \<Rightarrow> string" where
  "toString i = (if i < 0 then CHR ''-'' # digits (nat (- i)) else digits (nat i))"

text \<open>
  \<^verbatim>\<open>URLSearchParams.set\<close>: the first parameter of that name takes the value and the later
  ones of that name are deleted; a name that is absent is appended.
\<close>

fun searchParams_set :: "string \<Rightarrow> string \<Rightarrow> (string \<times> string) list \<Rightarrow> (string \<times> string) list" where
  "searchParams_set k v [] = [(k, v)]"
| "searchParams_set k v (p # ps) =
     (if fst p = k then (k, v) # filter (\<lambda>q. fst q \<noteq> k) ps else p # searchParams_set k v ps)"

text \<open>\<^verbatim>\<open>URLSearchParams.get\<close>: the value of the first parameter of that name.\<close>

definition searchParams_get :: "string \<Rightarrow> (string \<times> string) list \<Rightarrow> string option" where
  "searchParams_get k ps = map_of ps k"

subsection \<open>The host's StateManager\<close>

text \<open>
  Modelled from the spec: the host's \<^verbatim>\<open>StateManager\<close> and extension context are not part
  of the sources at hand. The spec describes them as a durable key-value store with
  \<^verbatim>\<open>get(key)\<close>, \<^verbatim>\<open>set(key, value | undefined-to-delete)\<close> and \<^verbatim>\<open>flush()\<close>, in a
  secret and a general namespace, where \<^verbatim>\<open>flush()\<close> guarantees durability before it
  returns. Reads and writes go to the cache; a flush copies every key written since the
  last flush to the context.
\<close>

definition getGlobalStateKey :: "('u, 'c) state \<Rightarrow> string \<Rightarrow> ('u, 'c) val option" where
  "getGlobalStateKey s k = globalStateCache s k"

definition setGlobalState :: "string \<Rightarrow> ('u, 'c) val option \<Rightarrow> ('u, 'c) state \<Rightarrow> ('u, 'c) state" where
  "setGlobalState k v s =
     s\<lparr>globalStateCache := (globalStateCache s)(k := v),
       pendingGlobalState := insert k (pendingGlobalState s)\<rparr>"

definition getSecretKey :: "('u, 'c) state \<Rightarrow> string \<Rightarrow> string option" where
  "getSecretKey s k = secretsCache s k"

definition setSecret :: "string \<Rightarrow> string option \<Rightarrow> ('u, 'c) state \<Rightarrow> ('u, 'c) state" where
  "setSecret k v s =
     s\<lparr>secretsCache := (secretsCache s)(k := v),
       pendingSecrets := insert k (pendingSecrets s)\<rparr>"

definition flushPendingState :: "('u, 'c) state \<Rightarrow> ('u, 'c) state" where
  "flushPendingState s =
     s\<lparr>globalState := (\<lambda>k. if k \<in> pendingGlobalState s then globalStateCache s k else globalState s k),
       secrets := (\<lambda>k. if k \<in> pendingSecrets s then secretsCache s k else secrets s k),
       pendingGlobalState := {},
       pendingSecrets := {}\<rparr>"

text \<open>
  The store is typed by key in the source (\<^verbatim>\<open>GlobalState[K]\<close>): a key read as a string
  holds a string or nothing, and likewise for the other shapes.
\<close>

definition asString :: "('u, 'c) val option \<Rightarrow> string option" where
  "asString v = (case v of Some (VString x) \<Rightarrow> Some x | _ \<Rightarrow> None)"

definition asUserInfo :: "('u, 'c) val option \<Rightarrow> 'u option" where
  "asUserInfo v = (case v of Some (VUserInfo x) \<Rightarrow> Some x | _ \<Rightarrow> None)"

definition asGroupConfig :: "('u, 'c) val option \<Rightarrow> VVGroupConfig option" where
  "asGroupConfig v = (case v of Some (VGroupConfig x) \<Rightarrow> Some x | _ \<Rightarrow> None)"

subsection \<open>Status and subscriptions\<close>

definition getInfo :: "('u, 'c) state \<Rightarrow> 'u VVAuthState" where
  "getInfo s = \<lparr>user = asUserInfo (getGlobalStateKey s ''vvUserInfo'')\<rparr>"

definition isAuthenticated :: "('u, 'c) state \<Rightarrow> bool" where
  "isAuthenticated s = truthy (getSecretKey s ''vv:accessToken'')"

definition getAccessToken :: "('u, 'c) state \<Rightarrow> string option" where
  "getAccessToken s = getSecretKey s ''vv:accessToken''"

definition getGroupConfig :: "('u, 'c) state \<Rightarrow> VVGroupConfig option" where
  "getGroupConfig s = asGroupConfig (getGlobalStateKey s ''vvGroupConfig'')"

text \<open>
  \<^verbatim>\<open>subscribeToAuthStatusUpdate\<close>: the new subscription object \<open>sub\<close> joins the set and the
  current status is sent to it at once. A rejected promise is only logged here. A stream
  that throws makes the call throw after the subscription was added, and the caller gets
  no function to cancel it. The function returned otherwise is \<open>unsubscribe sub\<close>.
\<close>

definition subscribeToAuthStatusUpdate ::
  "('u, 'c) env \<Rightarrow> nat \<Rightarrow> ('u, 'c) state \<Rightarrow> (error + unit) \<times> ('u, 'c) state" where
  "subscribeToAuthStatusUpdate e sub s =
     (let s = s\<lparr>activeAuthStatusUpdateSubscriptions :=
                  (if sub \<in> set (activeAuthStatusUpdateSubscriptions s)
                   then activeAuthStatusUpdateSubscriptions s
                   else activeAuthStatusUpdateSubscriptions s @ [sub])\<rparr>;
          s = s\<lparr>attempts := attempts s @ [(sub, getInfo s, responseStream e sub)]\<rparr>
      in case responseStream e sub of
           Thrown err \<Rightarrow> (Inl err, s)
         | _ \<Rightarrow> (Inr (), s))"

definition unsubscribe :: "nat \<Rightarrow> ('u, 'c) state \<Rightarrow> ('u, 'c) state" where
  "unsubscribe sub s =
     s\<lparr>activeAuthStatusUpdateSubscriptions := removeAll sub (activeAuthStatusUpdateSubscriptions s)\<rparr>"

text \<open>
  \<^verbatim>\<open>sendAuthStatusUpdate\<close>: one delivery attempt per subscription, in order. A stream that
  throws is removed on the spot; a rejected promise is removed when its \<^verbatim>\<open>catch\<close> handler
  runs, after the loop (\<open>runCatchHandlers\<close>).
\<close>

fun sendEach :: "('u, 'c) env \<Rightarrow> 'u VVAuthState \<Rightarrow> nat list \<Rightarrow> ('u, 'c) state \<Rightarrow> ('u, 'c) state" where
  "sendEach e authState [] s = s"
| "sendEach e authState (subscription # rest) s =
     sendEach e authState rest
       (let s = s\<lparr>attempts := attempts s @ [(subscription, authState, responseStream e subscription)]\<rparr>
        in case responseStream e subscription of
             Delivered \<Rightarrow> s
           | Rejected err \<Rightarrow> s\<lparr>rejections := rejections s @ [subscription]\<rparr>
           | Thrown err \<Rightarrow> unsubscribe subscription s)"

definition sendAuthStatusUpdate :: "('u, 'c) env \<Rightarrow> ('u, 'c) state \<Rightarrow> ('u, 'c) state" where
  "sendAuthStatusUpdate e s = sendEach e (getInfo s) (activeAuthStatusUpdateSubscriptions s) s"

definition runCatchHandlers :: "('u, 'c) state \<Rightarrow> ('u, 'c) state" where
  "runCatchHandlers s =
     s\<lparr>activeAuthStatusUpdateSubscriptions :=
         filter (\<lambda>sub. sub \<notin> set (rejections s)) (activeAuthStatusUpdateSubscriptions s),
       rejections := []\<rparr>"

subsection \<open>Group configuration\<close>

text \<open>\<^verbatim>\<open>applyGroupConfig\<close>: the group's key, model and base URL become the host's API settings.\<close>

definition applyGroupConfig :: "('u, 'c) env \<Rightarrow> VVGroupItem \<Rightarrow> ('u, 'c) state \<Rightarrow> ('u, 'c) state" where
  "applyGroupConfig e grp s =
     (let isDev = (process_env e ''IS_DEV'' = Some ''true'');
          devBaseUrl = (if truthy (process_env e ''DEV_BASE_URL'') then process_env e ''DEV_BASE_URL''
                        else Some ''http://127.0.0.1:3000'');
          s = setSecret ''apiKey'' (apiKey grp) s;
          s = setGlobalState ''planModeApiModelId'' (map_option VString (defaultModelId grp)) s;
          s = setGlobalState ''actModeApiModelId'' (map_option VString (defaultModelId grp)) s;
          baseUrl = (if isDev then devBaseUrl else apiBaseUrl grp);
          s = (if truthy baseUrl then setGlobalState ''anthropicBaseUrl'' (map_option VString baseUrl) s else s)
      in flushPendingState s)"

text \<open>\<^verbatim>\<open>switchGroup\<close>.\<close>

definition switchGroup ::
  "('u, 'c) env \<Rightarrow> string \<Rightarrow> ('u, 'c) state \<Rightarrow> (error + unit) \<times> ('u, 'c) state" where
  "switchGroup e groupType s =
     (case asGroupConfig (getGlobalStateKey s ''vvGroupConfig'') of
        None \<Rightarrow> (Inl (Error ''Group config not found. Please login first.''), s)
      | Some groupConfig \<Rightarrow>
          (case find_first (\<lambda>g. type g = groupType) groupConfig of
             None \<Rightarrow> (Inl (Error (''Group '' @ [CHR 0x22] @ groupType @ [CHR 0x22] @ '' not found'')), s)
           | Some targetGroup \<Rightarrow>
               if \<not> truthy (apiKey targetGroup)
               then (Inl (Error (''Group '' @ [CHR 0x22] @ groupType @ [CHR 0x22]
                        @ '' has no API key configured. Please configure it first.'')), s)
               else
                 let updatedConfig = map (\<lambda>g. g\<lparr>isDefault := (type g = groupType)\<rparr>) groupConfig;
                     s = setGlobalState ''vvGroupConfig'' (Some (VGroupConfig updatedConfig)) s;
                     s = applyGroupConfig e targetGroup s;
                     s = flushPendingState s
                 in (Inr (), sendAuthStatusUpdate e s)))"

subsection \<open>Login request\<close>

text \<open>\<^verbatim>\<open>String.prototype.replace\<close> with a string pattern: the first occurrence is replaced.\<close>

fun replace_str :: "string \<Rightarrow> string \<Rightarrow> string \<Rightarrow> string" where
  "replace_str [] p r = (if p = [] then r else [])"
| "replace_str (c # cs) p r =
     (if startsWith (c # cs) p then r @ drop (length p) (c # cs) else c # replace_str cs p r)"

definition PUBLISHER :: string where
  "PUBLISHER = ''PiuQiuPiaQia''"

definition EXTENSION_ID :: string where
  "EXTENSION_ID = ''vvcode''"

text \<open>The login page chosen by the constructor from the process environment.\<close>

definition AUTH_PAGE_URL :: "('u, 'c) env \<Rightarrow> string" where
  "AUTH_PAGE_URL e =
     (let isDevelopment = (process_env e ''IS_DEV'' = Some ''true'' \<or> process_env e ''VV_API_BASE_URL'' \<noteq> None);
          devBaseUrl = (case process_env e ''DEV_BASE_URL'' of
                          None \<Rightarrow> ''http://127.0.0.1:3000''
                        | Some v \<Rightarrow> if v \<noteq> [] then v else ''http://127.0.0.1:3000'');
          vvApiBaseUrl = (case process_env e ''VV_API_BASE_URL'' of None \<Rightarrow> [] | Some v \<Rightarrow> v)
      in if vvApiBaseUrl \<noteq> []
         then replace_str vvApiBaseUrl ''/api'' [] @ ''/oauth/vscode/login''
         else if isDevelopment then devBaseUrl @ ''/oauth/vscode/login''
         else ''https://vvcode.top/oauth/vscode/login'')"

text \<open>
  \<^verbatim>\<open>createAuthRequest\<close>. The URL object is returned as it is handed to the browser (the
  source returns its serialisation).
\<close>

definition createAuthRequest :: "('u, 'c) env \<Rightarrow> ('u, 'c) state \<Rightarrow> (error + url) \<times> ('u, 'c) state" where
  "createAuthRequest e s =
     (let state = generateState e;
          codeVerifier = generateCodeVerifier e;
          codeChallenge = generateCodeChallenge e codeVerifier;
          s = setGlobalState ''vv:authState'' (Some (VString state)) s;
          s = setGlobalState ''vv:codeVerifier'' (Some (VString codeVerifier)) s;
          s = flushPendingState s;
          savedState = asString (getGlobalStateKey s ''vv:authState'');
          savedVerifier = asString (getGlobalStateKey s ''vv:codeVerifier'')
      in if \<not> truthy savedState \<or> \<not> truthy savedVerifier
         then (Inl (Error ''Failed to save authentication state. Please try again.''), s)
         else
           let callbackUri = ''vscode://'' @ PUBLISHER @ ''.'' @ EXTENSION_ID @ ''/vv-callback''
           in case parseURL e (AUTH_PAGE_URL e) of
                Inl err \<Rightarrow> (Inl err, s)
              | Inr authUrl \<Rightarrow>
                  let authUrl = authUrl\<lparr>searchParams := searchParams_set ''state'' state (searchParams authUrl)\<rparr>;
                      authUrl = authUrl\<lparr>searchParams :=
                                   searchParams_set ''code_challenge'' codeChallenge (searchParams authUrl)\<rparr>;
                      authUrl = authUrl\<lparr>searchParams :=
                                   searchParams_set ''redirect_uri'' callbackUri (searchParams authUrl)\<rparr>
                  in case openExternal e authUrl of
                       Inl err \<Rightarrow> (Inl err, s)
                     | Inr _ \<Rightarrow> (Inr authUrl, s\<lparr>opened := opened s @ [authUrl]\<rparr>))"

subsection \<open>Login callback\<close>

text \<open>
  Step 6 of the \<^verbatim>\<open>try\<close> block, a \<^verbatim>\<open>try\<close>/\<^verbatim>\<open>catch\<close> of its own: the user configuration is
  fetched and stored; a failure is logged and ignored.
\<close>

definition handleAuthCallback_userConfig :: "('u, 'c) env \<Rightarrow> VVAuthInfo \<Rightarrow> ('u, 'c) state \<Rightarrow> ('u, 'c) state" where
  "handleAuthCallback_userConfig e authInfo s =
     (let s = s\<lparr>calls := calls s @ [GetUserConfig (accessToken authInfo) (userId authInfo)]\<rparr>
      in case getUserConfig e (accessToken authInfo) (userId authInfo) of
           Inl err \<Rightarrow> s
         | Inr userConfig \<Rightarrow> setGlobalState ''vvUserConfig'' (Some (VUserConfig userConfig)) s)"

text \<open>
  Step 7, likewise: the group configuration is fetched and stored, and the first group
  flagged as default is applied when it has an API key.
\<close>

definition handleAuthCallback_groupConfig :: "('u, 'c) env \<Rightarrow> VVAuthInfo \<Rightarrow> ('u, 'c) state \<Rightarrow> ('u, 'c) state" where
  "handleAuthCallback_groupConfig e authInfo s =
     (let s = s\<lparr>calls := calls s @ [GetGroupTokens (accessToken authInfo) (userId authInfo)]\<rparr>
      in case getGroupTokens e (accessToken authInfo) (userId authInfo) of
           Inl err \<Rightarrow> s
         | Inr groupConfig \<Rightarrow>
             let s = setGlobalState ''vvGroupConfig'' (Some (VGroupConfig groupConfig)) s
             in case find_first isDefault groupConfig of
                  None \<Rightarrow> s
                | Some defaultGroup \<Rightarrow>
                    if truthy (apiKey defaultGroup) then applyGroupConfig e defaultGroup s else s)"

text \<open>The \<^verbatim>\<open>try\<close> block of \<^verbatim>\<open>handleAuthCallback\<close>; \<open>Inl\<close> is the error it throws.\<close>

definition handleAuthCallback_try ::
  "('u, 'c) env \<Rightarrow> string \<Rightarrow> string \<Rightarrow> ('u, 'c) state \<Rightarrow> (error + unit) \<times> ('u, 'c) state" where
  "handleAuthCallback_try e code state s =
     (let storedState = asString (getGlobalStateKey s ''vv:authState'');
          storedState = (if \<not> truthy storedState then asString (globalState s ''vv:authState'') else storedState)
      in if \<not> truthy storedState
         then (Inl (Error (''Authentication state not found. This may happen if the extension was reloaded. ''
                     @ ''Please try logging in again.'')), s)
         else if Some state \<noteq> storedState
         then (Inl (Error ''Invalid state parameter - possible CSRF attack''), s)
         else
           let codeVerifier = asString (getGlobalStateKey s ''vv:codeVerifier'');
               codeVerifier = (if \<not> truthy codeVerifier then asString (globalState s ''vv:codeVerifier'')
                               else codeVerifier)
           in case codeVerifier of
                None \<Rightarrow> (Inl (Error ''Code verifier not found. Please try logging in again.''), s)
              | Some verifier \<Rightarrow>
                  if \<not> truthy codeVerifier
                  then (Inl (Error ''Code verifier not found. Please try logging in again.''), s)
                  else
                    let s = s\<lparr>calls := calls s @ [ExchangeCodeForToken code verifier state]\<rparr>
                    in case exchangeCodeForToken e code verifier state of
                         Inl err \<Rightarrow> (Inl err, s)
                       | Inr authInfo \<Rightarrow>
                           let s = setSecret ''vv:accessToken'' (Some (accessToken authInfo)) s;
                               s = setSecret ''vv:userId'' (Some (toString (userId authInfo))) s;
                               s = s\<lparr>calls := calls s @ [GetUserInfo (accessToken authInfo) (userId authInfo)]\<rparr>
                           in case getUserInfo e (accessToken authInfo) (userId authInfo) of
                                Inl err \<Rightarrow> (Inl err, s)
                              | Inr userInfo \<Rightarrow>
                                  let s = setGlobalState ''vvUserInfo'' (Some (VUserInfo userInfo)) s;
                                      s = handleAuthCallback_userConfig e authInfo s;
                                      s = handleAuthCallback_groupConfig e authInfo s;
                                      s = flushPendingState s;
                                      s = setGlobalState ''vv:authState'' None s;
                                      s = setGlobalState ''vv:codeVerifier'' None s;
                                      s = flushPendingState s;
                                      s = s\<lparr>lastProcessedCode := Some code\<rparr>;
                                      s = s\<lparr>authenticated := True\<rparr>
                                  in (Inr (), sendAuthStatusUpdate e s))"

text \<open>
  \<^verbatim>\<open>handleAuthCallback\<close>: the two guards, the \<^verbatim>\<open>try\<close> block, the \<^verbatim>\<open>catch\<close> handler that
  clears the session and classifies the error, and the \<^verbatim>\<open>finally\<close> clause.
\<close>

definition handleAuthCallback ::
  "('u, 'c) env \<Rightarrow> string \<Rightarrow> string \<Rightarrow> ('u, 'c) state \<Rightarrow> (error + unit) \<times> ('u, 'c) state" where
  "handleAuthCallback e code state s =
     (if processingAuthCallback s then (Inr (), s)
      else if lastProcessedCode s = Some code then (Inr (), s)
      else
        let s = s\<lparr>processingAuthCallback := True\<rparr>
        in case handleAuthCallback_try e code state s of
             (Inr u, s) \<Rightarrow> (Inr u, s\<lparr>processingAuthCallback := False\<rparr>)
           | (Inl err, s) \<Rightarrow>
               let s = setGlobalState ''vv:authState'' None s;
                   s = setGlobalState ''vv:codeVerifier'' None s;
                   s = flushPendingState s;
                   errorMessage = message err
               in if includes_str errorMessage ''Too Many Requests'' \<or> includes_str errorMessage ''429''
                  then (Inl (Error (''Authentication rate limit exceeded. ''
                              @ ''Please wait a moment and try logging in again.'')),
                        s\<lparr>processingAuthCallback := False\<rparr>)
                  else (Inl (Error (''Authentication failed: '' @ errorMessage)),
                        s\<lparr>processingAuthCallback := False\<rparr>))"

subsection \<open>Logout\<close>

text \<open>\<^verbatim>\<open>handleDeauth\<close>; a failure of the provider's \<^verbatim>\<open>logout\<close> is logged and ignored.\<close>

definition handleDeauth :: "('u, 'c) env \<Rightarrow> ('u, 'c) state \<Rightarrow> (error + unit) \<times> ('u, 'c) state" where
  "handleDeauth e s =
     (let accessToken = getSecretKey s ''vv:accessToken'';
          s = (case accessToken of
                 None \<Rightarrow> s
               | Some token \<Rightarrow>
                   if truthy accessToken
                   then (case logout e token of
                           Inl err \<Rightarrow> s\<lparr>calls := calls s @ [Logout token]\<rparr>
                         | Inr _ \<Rightarrow> s\<lparr>calls := calls s @ [Logout token]\<rparr>)
                   else s);
          s = setSecret ''vv:accessToken'' None s;
          s = setSecret ''vv:refreshToken'' None s;
          s = setGlobalState ''vvUserInfo'' None s;
          s = setGlobalState ''vvUserConfig'' None s;
          s = setGlobalState ''vv:authState'' None s;
          s = setGlobalState ''vv:codeVerifier'' None s;
          s = flushPendingState s;
          s = s\<lparr>authenticated := False\<rparr>
      in (Inr (), sendAuthStatusUpdate e s))"

subsection \<open>Observations and example data\<close>

text \<open>The number of token exchanges among the recorded provider calls.\<close>

fun exchangesOf :: "call list \<Rightarrow> nat" where
  "exchangesOf [] = 0"
| "exchangesOf (ExchangeCodeForToken c v st # cs) = Suc (exchangesOf cs)"
| "exchangesOf (_ # cs) = exchangesOf cs"

text \<open>The host's active API settings: the key, the two model selections and the base URL.\<close>

definition hostApiSettings ::
  "('u, 'c) state \<Rightarrow> string option \<times> ('u, 'c) val option \<times> ('u, 'c) val option \<times> ('u, 'c) val option" where
  "hostApiSettings s =
     (getSecretKey s ''apiKey'', getGlobalStateKey s ''planModeApiModelId'',
      getGlobalStateKey s ''actModeApiModelId'', getGlobalStateKey s ''anthropicBaseUrl'')"

text \<open>
  Two groups, a provider that answers every call, a service with three subscribers of
  which the second one's stream rejects, that service with a login request pending, and
  that service logged in.
\<close>

definition example_groups :: VVGroupConfig where
  "example_groups =
     [\<lparr>type = ''daily'', apiKey = Some ''key-daily'', defaultModelId = Some ''model-a'',
       apiBaseUrl = Some ''https://daily.example'', isDefault = True\<rparr>,
      \<lparr>type = ''discount'', apiKey = None, defaultModelId = Some ''model-b'',
       apiBaseUrl = None, isDefault = False\<rparr>]"

definition example_env :: "(string, string) env" where
  "example_env =
     \<lparr>exchangeCodeForToken = (\<lambda>code verifier state. Inr \<lparr>accessToken = ''token-1'', userId = 42\<rparr>),
      getUserInfo = (\<lambda>token uid. Inr ''alice''),
      getUserConfig = (\<lambda>token uid. Inr ''dark''),
      getGroupTokens = (\<lambda>token uid. Inr example_groups),
      logout = (\<lambda>token. Inr ()),
      generateState = ''S'',
      generateCodeVerifier = ''V'',
      generateCodeChallenge = (\<lambda>verifier. ''challenge-of-'' @ verifier),
      parseURL = (\<lambda>u. Inr \<lparr>href = u, searchParams = []\<rparr>),
      openExternal = (\<lambda>u. Inr ()),
      process_env = Map.empty,
      responseStream = (\<lambda>sub. if sub = 2 then Rejected (Error ''stream closed'') else Delivered)\<rparr>"

definition example_state :: "(string, string) state" where
  "example_state =
     \<lparr>globalStateCache = Map.empty, secretsCache = Map.empty, pendingGlobalState = {}, pendingSecrets = {},
      globalState = Map.empty, secrets = Map.empty, authenticated = False,
      activeAuthStatusUpdateSubscriptions = [1, 2, 3], processingAuthCallback = False, lastProcessedCode = None,
      calls = [], opened = [], attempts = [], rejections = []\<rparr>"

definition example_pending :: "(string, string) state" where
  "example_pending =
     example_state
       \<lparr>globalStateCache := [''vv:authState'' \<mapsto> VString ''S'', ''vv:codeVerifier'' \<mapsto> VString ''V''],
        globalState := [''vv:authState'' \<mapsto> VString ''S'', ''vv:codeVerifier'' \<mapsto> VString ''V'']\<rparr>"

definition example_logged_in :: "(string, string) state" where
  "example_logged_in =
     example_state
       \<lparr>globalStateCache := [''vvUserInfo'' \<mapsto> VUserInfo ''alice'', ''vvGroupConfig'' \<mapsto> VGroupConfig example_groups],
        globalState := [''vvUserInfo'' \<mapsto> VUserInfo ''alice'', ''vvGroupConfig'' \<mapsto> VGroupConfig example_groups],
        secretsCache := [''vv:accessToken'' \<mapsto> ''token-0'', ''vv:userId'' \<mapsto> ''42''],
        secrets := [''vv:accessToken'' \<mapsto> ''token-0'', ''vv:userId'' \<mapsto> ''42'']\<rparr>"

section \<open>Properties\<close>

subsection \<open>What each operation leaves alone\<close>

lemma setGlobalState_fields [simp]:
  "globalStateCache (setGlobalState k v s) = (globalStateCache s)(k := v)"
  "pendingGlobalState (setGlobalState k v s) = insert k (pendingGlobalState s)"
  "secretsCache (setGlobalState k v s) = secretsCache s"
  "pendingSecrets (setGlobalState k v s) = pendingSecrets s"
  "globalState (setGlobalState k v s) = globalState s"
  "secrets (setGlobalState k v s) = secrets s"
  "authenticated (setGlobalState k v s) = authenticated s"
  "activeAuthStatusUpdateSubscriptions (setGlobalState k v s) = activeAuthStatusUpdateSubscriptions s"
  "processingAuthCallback (setGlobalState k v s) = processingAuthCallback s"
  "lastProcessedCode (setGlobalState k v s) = lastProcessedCode s"
  "calls (setGlobalState k v s) = calls s"
  "opened (setGlobalState k v s) = opened s"
  "attempts (setGlobalState k v s) = attempts s"
  "rejections (setGlobalState k v s) = rejections s"
  by (simp_all add: setGlobalState_def)

lemma setSecret_fields [simp]:
  "globalStateCache (setSecret k v s) = globalStateCache s"
  "pendingGlobalState (setSecret k v s) = pendingGlobalState s"
  "secretsCache (setSecret k v s) = (secretsCache s)(k := v)"
  "pendingSecrets (setSecret k v s) = insert k (pendingSecrets s)"
  "globalState (setSecret k v s) = globalState s"
  "secrets (setSecret k v s) = secrets s"
  "authenticated (setSecret k v s) = authenticated s"
  "activeAuthStatusUpdateSubscriptions (setSecret k v s) = activeAuthStatusUpdateSubscriptions s"
  "processingAuthCallback (setSecret k v s) = processingAuthCallback s"
  "lastProcessedCode (setSecret k v s) = lastProcessedCode s"
  "calls (setSecret k v s) = calls s"
  "opened (setSecret k v s) = opened s"
  "attempts (setSecret k v s) = attempts s"
  "rejections (setSecret k v s) = rejections s"
  by (simp_all add: setSecret_def)

lemma flushPendingState_fields [simp]:
  "globalStateCache (flushPendingState s) = globalStateCache s"
  "pendingGlobalState (flushPendingState s) = {}"
  "secretsCache (flushPendingState s) = secretsCache s"
  "pendingSecrets (flushPendingState s) = {}"
  "globalState (flushPendingState s) k = (if k \<in> pendingGlobalState s then globalStateCache s k else globalState s k)"
  "secrets (flushPendingState s) k = (if k \<in> pendingSecrets s then secretsCache s k else secrets s k)"
  "authenticated (flushPendingState s) = authenticated s"
  "activeAuthStatusUpdateSubscriptions (flushPendingState s) = activeAuthStatusUpdateSubscriptions s"
  "processingAuthCallback (flushPendingState s) = processingAuthCallback s"
  "lastProcessedCode (flushPendingState s) = lastProcessedCode s"
  "calls (flushPendingState s) = calls s"
  "opened (flushPendingState s) = opened s"
  "attempts (flushPendingState s) = attempts s"
  "rejections (flushPendingState s) = rejections s"
  by (simp_all add: flushPendingState_def)

lemma sendEach_fields [simp]:
  "globalStateCache (sendEach e a subs s) = globalStateCache s"
  "secretsCache (sendEach e a subs s) = secretsCache s"
  "pendingGlobalState (sendEach e a subs s) = pendingGlobalState s"
  "pendingSecrets (sendEach e a subs s) = pendingSecrets s"
  "globalState (sendEach e a subs s) = globalState s"
  "secrets (sendEach e a subs s) = secrets s"
  "authenticated (sendEach e a subs s) = authenticated s"
  "processingAuthCallback (sendEach e a subs s) = processingAuthCallback s"
  "lastProcessedCode (sendEach e a subs s) = lastProcessedCode s"
  "calls (sendEach e a subs s) = calls s"
  "opened (sendEach e a subs s) = opened s"
  by (induction subs arbitrary: s; simp add: unsubscribe_def Let_def split: outcome.splits)+

lemma sendAuthStatusUpdate_fields [simp]:
  "globalStateCache (sendAuthStatusUpdate e s) = globalStateCache s"
  "secretsCache (sendAuthStatusUpdate e s) = secretsCache s"
  "pendingGlobalState (sendAuthStatusUpdate e s) = pendingGlobalState s"
  "pendingSecrets (sendAuthStatusUpdate e s) = pendingSecrets s"
  "globalState (sendAuthStatusUpdate e s) = globalState s"
  "secrets (sendAuthStatusUpdate e s) = secrets s"
  "authenticated (sendAuthStatusUpdate e s) = authenticated s"
  "processingAuthCallback (sendAuthStatusUpdate e s) = processingAuthCallback s"
  "lastProcessedCode (sendAuthStatusUpdate e s) = lastProcessedCode s"
  "calls (sendAuthStatusUpdate e s) = calls s"
  "opened (sendAuthStatusUpdate e s) = opened s"
  by (simp_all add: sendAuthStatusUpdate_def)

lemma exchangesOf_append [simp]: "exchangesOf (xs @ ys) = exchangesOf xs + exchangesOf ys"
  by (induction xs rule: exchangesOf.induct) simp_all

lemma applyGroupConfig_fields [simp]:
  "authenticated (applyGroupConfig e g s) = authenticated s"
  "activeAuthStatusUpdateSubscriptions (applyGroupConfig e g s) = activeAuthStatusUpdateSubscriptions s"
  "processingAuthCallback (applyGroupConfig e g s) = processingAuthCallback s"
  "lastProcessedCode (applyGroupConfig e g s) = lastProcessedCode s"
  "calls (applyGroupConfig e g s) = calls s"
  "opened (applyGroupConfig e g s) = opened s"
  "attempts (applyGroupConfig e g s) = attempts s"
  "rejections (applyGroupConfig e g s) = rejections s"
  "pendingGlobalState (applyGroupConfig e g s) = {}"
  "pendingSecrets (applyGroupConfig e g s) = {}"
  by (simp_all add: applyGroupConfig_def Let_def)

lemma handleAuthCallback_userConfig_fields [simp]:
  "authenticated (handleAuthCallback_userConfig e a s) = authenticated s"
  "activeAuthStatusUpdateSubscriptions (handleAuthCallback_userConfig e a s) = activeAuthStatusUpdateSubscriptions s"
  "processingAuthCallback (handleAuthCallback_userConfig e a s) = processingAuthCallback s"
  "lastProcessedCode (handleAuthCallback_userConfig e a s) = lastProcessedCode s"
  "exchangesOf (calls (handleAuthCallback_userConfig e a s)) = exchangesOf (calls s)"
  "opened (handleAuthCallback_userConfig e a s) = opened s"
  "attempts (handleAuthCallback_userConfig e a s) = attempts s"
  "rejections (handleAuthCallback_userConfig e a s) = rejections s"
  "secretsCache (handleAuthCallback_userConfig e a s) = secretsCache s"
  "secrets (handleAuthCallback_userConfig e a s) = secrets s"
  "pendingSecrets (handleAuthCallback_userConfig e a s) = pendingSecrets s"
  by (simp_all add: handleAuthCallback_userConfig_def Let_def split: sum.splits)

lemma handleAuthCallback_groupConfig_fields [simp]:
  "authenticated (handleAuthCallback_groupConfig e a s) = authenticated s"
  "activeAuthStatusUpdateSubscriptions (handleAuthCallback_groupConfig e a s) = activeAuthStatusUpdateSubscriptions s"
  "processingAuthCallback (handleAuthCallback_groupConfig e a s) = processingAuthCallback s"
  "lastProcessedCode (handleAuthCallback_groupConfig e a s) = lastProcessedCode s"
  "exchangesOf (calls (handleAuthCallback_groupConfig e a s)) = exchangesOf (calls s)"
  "opened (handleAuthCallback_groupConfig e a s) = opened s"
  "attempts (handleAuthCallback_groupConfig e a s) = attempts s"
  "rejections (handleAuthCallback_groupConfig e a s) = rejections s"
  by (simp_all add: handleAuthCallback_groupConfig_def Let_def split: sum.splits option.splits)

lemmas example_defs = example_groups_def example_env_def example_state_def example_pending_def
  example_logged_in_def truthy_def asString_def asGroupConfig_def getGlobalStateKey_def getSecretKey_def
  getGroupConfig_def Let_def

subsection \<open>The login callback\<close>

lemma csrf_message_not_rate_limit:
  "\<not> includes_str ''Invalid state parameter - possible CSRF attack'' ''429''"
  "\<not> includes_str ''Invalid state parameter - possible CSRF attack'' ''Too Many Requests''"
  by simp_all

lemma handleAuthCallback_try_csrf:
  assumes "storedState = (if truthy (asString (getGlobalStateKey s ''vv:authState''))
                          then asString (getGlobalStateKey s ''vv:authState'')
                          else asString (globalState s ''vv:authState''))"
    and "truthy storedState" and "storedState \<noteq> Some state"
  shows "handleAuthCallback_try e code state s =
           (Inl (Error ''Invalid state parameter - possible CSRF attack''), s)"
proof (cases "truthy (asString (getGlobalStateKey s ''vv:authState''))")
  case True
  with assms show ?thesis by (simp add: handleAuthCallback_try_def Let_def)
next
  case False
  with assms show ?thesis by (simp add: handleAuthCallback_try_def Let_def)
qed

lemma handleAuthCallback_try_exchanges:
  "exchangesOf (calls (snd (handleAuthCallback_try e code state s))) \<le> exchangesOf (calls s) + 1"
  by (simp add: handleAuthCallback_try_def Let_def split: sum.splits option.splits)

lemma handleAuthCallback_try_no_session:
  assumes "\<not> truthy (asString (globalStateCache s ''vv:authState''))"
    and "\<not> truthy (asString (globalState s ''vv:authState''))"
  shows "calls (snd (handleAuthCallback_try e code state s)) = calls s"
  using assms by (simp add: handleAuthCallback_try_def Let_def getGlobalStateKey_def)

lemma handleAuthCallback_try_success:
  assumes "handleAuthCallback_try e code state s = (Inr u, s1)"
  shows "lastProcessedCode s1 = Some code \<and> processingAuthCallback s1 = processingAuthCallback s"
  using assms by (auto simp: handleAuthCallback_try_def Let_def split: sum.splits option.splits if_splits)

lemma handleAuthCallback_exchanges:
  "exchangesOf (calls (snd (handleAuthCallback e code state s))) \<le> exchangesOf (calls s) + 1"
proof -
  obtain r s1 where t: "handleAuthCallback_try e code state (s\<lparr>processingAuthCallback := True\<rparr>) = (r, s1)"
    by (cases "handleAuthCallback_try e code state (s\<lparr>processingAuthCallback := True\<rparr>)")
  have "exchangesOf (calls s1) \<le> exchangesOf (calls s) + 1"
    using handleAuthCallback_try_exchanges[of e code state "s\<lparr>processingAuthCallback := True\<rparr>"] t by simp
  then show ?thesis
    by (cases r) (simp_all add: handleAuthCallback_def t Let_def)
qed

lemma handleAuthCallback_processed:
  assumes "\<not> processingAuthCallback s" and "lastProcessedCode s \<noteq> Some code"
  shows "\<not> processingAuthCallback (snd (handleAuthCallback e code state s))
       \<and> (lastProcessedCode (snd (handleAuthCallback e code state s)) = Some code
          \<or> globalStateCache (snd (handleAuthCallback e code state s)) ''vv:authState'' = None
            \<and> globalState (snd (handleAuthCallback e code state s)) ''vv:authState'' = None)"
proof -
  obtain r s1 where t: "handleAuthCallback_try e code state (s\<lparr>processingAuthCallback := True\<rparr>) = (r, s1)"
    by (cases "handleAuthCallback_try e code state (s\<lparr>processingAuthCallback := True\<rparr>)")
  show ?thesis
  proof (cases r)
    case (Inl err)
    with assms t show ?thesis by (simp add: handleAuthCallback_def Let_def)
  next
    case (Inr u)
    with t have "lastProcessedCode s1 = Some code"
      using handleAuthCallback_try_success by blast
    with assms t Inr show ?thesis by (simp add: handleAuthCallback_def Let_def)
  qed
qed

lemma handleAuthCallback_no_session:
  assumes "globalStateCache s ''vv:authState'' = None" and "globalState s ''vv:authState'' = None"
  shows "calls (snd (handleAuthCallback e code state s)) = calls s"
proof -
  let ?s = "s\<lparr>processingAuthCallback := True\<rparr>"
  obtain r s1 where t: "handleAuthCallback_try e code state ?s = (r, s1)"
    by (cases "handleAuthCallback_try e code state ?s")
  have "calls (snd (handleAuthCallback_try e code state ?s)) = calls ?s"
    using assms by (intro handleAuthCallback_try_no_session) (simp_all add: asString_def truthy_def)
  with t have "calls s1 = calls s" by simp
  then show ?thesis
    by (cases r) (simp_all add: handleAuthCallback_def t Let_def)
qed

lemma handleAuthCallback_noop:
  "processingAuthCallback s \<or> lastProcessedCode s = Some code \<Longrightarrow> handleAuthCallback e code state s = (Inr (), s)"
  by (auto simp: handleAuthCallback_def)

text \<open>
  C1. When the callback gets past its guards and finds a stored session state (in the
  cache, or else in the context) that differs from the \<open>state\<close> argument, it throws the
  CSRF error, wrapped by the handler, without calling the provider; no secret is
  written: every secret reads as before, and the secret storage holds what flushing the
  prior state would have put there.
\<close>

theorem handleAuthCallback_csrf_mismatch:
  assumes "\<not> processingAuthCallback s" and "lastProcessedCode s \<noteq> Some code"
    and "storedState = (if truthy (asString (getGlobalStateKey s ''vv:authState''))
                        then asString (getGlobalStateKey s ''vv:authState'')
                        else asString (globalState s ''vv:authState''))"
    and "truthy storedState" and "storedState \<noteq> Some state"
  shows "fst (handleAuthCallback e code state s) =
           Inl (Error ''Authentication failed: Invalid state parameter - possible CSRF attack'')
       \<and> getSecretKey (snd (handleAuthCallback e code state s)) k = getSecretKey s k
       \<and> secrets (snd (handleAuthCallback e code state s)) k = secrets (flushPendingState s) k
       \<and> calls (snd (handleAuthCallback e code state s)) = calls s"
proof -
  let ?s = "s\<lparr>processingAuthCallback := True\<rparr>"
  have "handleAuthCallback_try e code state ?s =
           (Inl (Error ''Invalid state parameter - possible CSRF attack''), ?s)"
    using assms(3-5) by (intro handleAuthCallback_try_csrf[where storedState = storedState])
      (simp_all add: getGlobalStateKey_def)
  then show ?thesis
    using assms(1,2) csrf_message_not_rate_limit
    by (simp add: handleAuthCallback_def Let_def getSecretKey_def del: includes_str.simps)
qed

theorem handleAuthCallback_csrf_mismatch_witness:
  "\<not> processingAuthCallback example_pending \<and> lastProcessedCode example_pending \<noteq> Some ''abc''
   \<and> truthy (Some ''S'') \<and> Some ''S'' \<noteq> Some ''wrong''
   \<and> fst (handleAuthCallback example_env ''abc'' ''wrong'' example_pending) =
        Inl (Error ''Authentication failed: Invalid state parameter - possible CSRF attack'')
   \<and> getSecretKey (snd (handleAuthCallback example_env ''abc'' ''wrong'' example_pending)) ''vv:accessToken''
        = getSecretKey example_pending ''vv:accessToken''
   \<and> getSecretKey (snd (handleAuthCallback example_env ''abc'' ''wrong'' example_pending)) ''vv:accessToken'' = None"
  using handleAuthCallback_csrf_mismatch [of example_pending "''abc''" "Some ''S''" "''wrong''" example_env "''vv:accessToken''"]
  by (simp add: example_defs)

text \<open>
  C2. A callback that arrives while another one is being processed, or with the code
  that was processed last, returns at once and changes nothing; and two calls in a row
  with the same code, whatever the provider answers, make at most one token exchange.
\<close>

theorem handleAuthCallback_duplicate_delivery:
  "(processingAuthCallback s \<or> lastProcessedCode s = Some code
      \<longrightarrow> handleAuthCallback e code state s = (Inr (), s))
   \<and> exchangesOf (calls (snd (handleAuthCallback e2 code state2 (snd (handleAuthCallback e1 code state1 s)))))
       \<le> exchangesOf (calls s) + 1"
proof
  show "processingAuthCallback s \<or> lastProcessedCode s = Some code
      \<longrightarrow> handleAuthCallback e code state s = (Inr (), s)"
    by (simp add: handleAuthCallback_noop)
next
  let ?s1 = "snd (handleAuthCallback e1 code state1 s)"
  let ?s2 = "snd (handleAuthCallback e2 code state2 ?s1)"
  have first: "exchangesOf (calls ?s1) \<le> exchangesOf (calls s) + 1"
    by (rule handleAuthCallback_exchanges)
  show "exchangesOf (calls ?s2) \<le> exchangesOf (calls s) + 1"
  proof (cases "processingAuthCallback s \<or> lastProcessedCode s = Some code")
    case True
    then have "?s1 = s" by (simp add: handleAuthCallback_noop)
    moreover from True have "snd (handleAuthCallback e2 code state2 s) = s"
      by (simp add: handleAuthCallback_noop)
    ultimately show ?thesis by simp
  next
    case False
    then have p: "\<not> processingAuthCallback ?s1"
      and d: "lastProcessedCode ?s1 = Some code
          \<or> globalStateCache ?s1 ''vv:authState'' = None \<and> globalState ?s1 ''vv:authState'' = None"
      using handleAuthCallback_processed[of s code e1 state1] by simp_all
    from d show ?thesis
    proof
      assume "lastProcessedCode ?s1 = Some code"
      then have "?s2 = ?s1" by (simp add: handleAuthCallback_noop)
      with first show ?thesis by simp
    next
      assume "globalStateCache ?s1 ''vv:authState'' = None \<and> globalState ?s1 ''vv:authState'' = None"
      then have "calls ?s2 = calls ?s1"
        by (intro handleAuthCallback_no_session) simp_all
      with first show ?thesis by simp
    qed
  qed
qed

theorem handleAuthCallback_duplicate_delivery_witness:
  "lastProcessedCode (snd (handleAuthCallback example_env ''abc'' ''S'' example_pending)) = Some ''abc''
   \<and> handleAuthCallback example_env ''abc'' ''S'' (snd (handleAuthCallback example_env ''abc'' ''S'' example_pending))
       = (Inr (), snd (handleAuthCallback example_env ''abc'' ''S'' example_pending))
   \<and> exchangesOf (calls example_pending) = 0
   \<and> exchangesOf (calls (snd (handleAuthCallback example_env ''abc'' ''S''
        (snd (handleAuthCallback example_env ''abc'' ''S'' example_pending))))) = 1"
proof -
  have l: "lastProcessedCode (snd (handleAuthCallback example_env ''abc'' ''S'' example_pending)) = Some ''abc''"
    by (simp add: handleAuthCallback_def handleAuthCallback_try_def example_defs)
  have c: "exchangesOf (calls (snd (handleAuthCallback example_env ''abc'' ''S'' example_pending))) = 1"
    by (simp add: handleAuthCallback_def handleAuthCallback_try_def example_defs)
  have z: "exchangesOf (calls example_pending) = 0"
    by (simp add: example_defs)
  show ?thesis
    using l c z handleAuthCallback_duplicate_delivery
      [of "snd (handleAuthCallback example_env ''abc'' ''S'' example_pending)" "''abc''" example_env "''S''"]
    by simp
qed

text \<open>
  C3. A call that starts while no other callback is being processed leaves the
  processing flag cleared, whether it returns or throws. When its \<^verbatim>\<open>try\<close> block throws, the
  two session keys are cleared in the cache and in the context, nothing is left
  unflushed, and the error thrown is the rate-limit message if the original message
  contains \<^verbatim>\<open>Too Many Requests\<close> or \<^verbatim>\<open>429\<close>, and \<^verbatim>\<open>Authentication failed: \<close> followed by
  the original message otherwise.
\<close>

theorem handleAuthCallback_failure_cleanup:
  assumes "\<not> processingAuthCallback s"
  shows "\<not> processingAuthCallback (snd (handleAuthCallback e code state s))
     \<and> (lastProcessedCode s \<noteq> Some code \<longrightarrow>
        (case handleAuthCallback_try e code state (s\<lparr>processingAuthCallback := True\<rparr>) of
          (Inr u, s1) \<Rightarrow> fst (handleAuthCallback e code state s) = Inr u
        | (Inl err, s1) \<Rightarrow>
            fst (handleAuthCallback e code state s) =
              Inl (Error (if includes_str (message err) ''Too Many Requests'' \<or> includes_str (message err) ''429''
                          then ''Authentication rate limit exceeded. Please wait a moment and try logging in again.''
                          else ''Authentication failed: '' @ message err))
          \<and> getGlobalStateKey (snd (handleAuthCallback e code state s)) ''vv:authState'' = None
          \<and> getGlobalStateKey (snd (handleAuthCallback e code state s)) ''vv:codeVerifier'' = None
          \<and> globalState (snd (handleAuthCallback e code state s)) ''vv:authState'' = None
          \<and> globalState (snd (handleAuthCallback e code state s)) ''vv:codeVerifier'' = None
          \<and> pendingGlobalState (snd (handleAuthCallback e code state s)) = {}
          \<and> pendingSecrets (snd (handleAuthCallback e code state s)) = {}))"
proof -
  obtain r s1 where t: "handleAuthCallback_try e code state (s\<lparr>processingAuthCallback := True\<rparr>) = (r, s1)"
    by (cases "handleAuthCallback_try e code state (s\<lparr>processingAuthCallback := True\<rparr>)")
  show ?thesis
  proof (cases r)
    case (Inl err)
    with assms t show ?thesis
      by (simp add: handleAuthCallback_def Let_def getGlobalStateKey_def del: includes_str.simps)
  next
    case (Inr u)
    with assms t show ?thesis
      by (simp add: handleAuthCallback_def Let_def)
  qed
qed

theorem handleAuthCallback_failure_cleanup_witness:
  "\<not> processingAuthCallback example_pending \<and> lastProcessedCode example_pending \<noteq> Some ''abc''
   \<and> fst (handleAuthCallback (example_env\<lparr>exchangeCodeForToken := \<lambda>code verifier state. Inl (Error ''HTTP 500'')\<rparr>)
            ''abc'' ''S'' example_pending) = Inl (Error ''Authentication failed: HTTP 500'')
   \<and> getGlobalStateKey (snd (handleAuthCallback
          (example_env\<lparr>exchangeCodeForToken := \<lambda>code verifier state. Inl (Error ''HTTP 500'')\<rparr>)
            ''abc'' ''S'' example_pending)) ''vv:authState'' = None
   \<and> globalState (snd (handleAuthCallback
          (example_env\<lparr>exchangeCodeForToken := \<lambda>code verifier state. Inl (Error ''HTTP 500'')\<rparr>)
            ''abc'' ''S'' example_pending)) ''vv:codeVerifier'' = None
   \<and> \<not> processingAuthCallback (snd (handleAuthCallback
          (example_env\<lparr>exchangeCodeForToken := \<lambda>code verifier state. Inl (Error ''HTTP 500'')\<rparr>)
            ''abc'' ''S'' example_pending))
   \<and> fst (handleAuthCallback
          (example_env\<lparr>exchangeCodeForToken := \<lambda>code verifier state. Inl (Error ''429 Too Many Requests'')\<rparr>)
            ''abc'' ''S'' example_pending)
       = Inl (Error ''Authentication rate limit exceeded. Please wait a moment and try logging in again.'')"
  using handleAuthCallback_failure_cleanup
    [where s = example_pending and code = "''abc''" and state = "''S''"
       and e = "example_env\<lparr>exchangeCodeForToken := \<lambda>code verifier state. Inl (Error ''HTTP 500'')\<rparr>"]
    handleAuthCallback_failure_cleanup
    [where s = example_pending and code = "''abc''" and state = "''S''"
       and e = "example_env\<lparr>exchangeCodeForToken := \<lambda>code verifier state. Inl (Error ''429 Too Many Requests'')\<rparr>"]
  by (simp add: handleAuthCallback_try_def example_defs)

lemma handleAuthCallback_try_userInfo_fails:
  assumes "storedState = (if truthy (asString (getGlobalStateKey s ''vv:authState''))
                          then asString (getGlobalStateKey s ''vv:authState'')
                          else asString (globalState s ''vv:authState''))"
    and "storedState = Some state" and "state \<noteq> []"
    and "codeVerifier = (if truthy (asString (getGlobalStateKey s ''vv:codeVerifier''))
                         then asString (getGlobalStateKey s ''vv:codeVerifier'')
                         else asString (globalState s ''vv:codeVerifier''))"
    and "codeVerifier = Some verifier" and "verifier \<noteq> []"
    and "exchangeCodeForToken e code verifier state = Inr authInfo"
    and "getUserInfo e (accessToken authInfo) (userId authInfo) = Inl err"
  shows "handleAuthCallback_try e code state s =
          (Inl err,
           setSecret ''vv:userId'' (Some (toString (userId authInfo)))
             (setSecret ''vv:accessToken'' (Some (accessToken authInfo))
                (s\<lparr>calls := calls s @ [ExchangeCodeForToken code verifier state]\<rparr>))
             \<lparr>calls := calls s @ [ExchangeCodeForToken code verifier state,
                                 GetUserInfo (accessToken authInfo) (userId authInfo)]\<rparr>)"
proof -
  have a: "(if \<not> truthy (asString (getGlobalStateKey s ''vv:authState''))
            then asString (globalState s ''vv:authState'')
            else asString (getGlobalStateKey s ''vv:authState'')) = Some state"
    using assms(1,2) by (simp split: if_splits)
  have b: "(if \<not> truthy (asString (getGlobalStateKey s ''vv:codeVerifier''))
            then asString (globalState s ''vv:codeVerifier'')
            else asString (getGlobalStateKey s ''vv:codeVerifier'')) = Some verifier"
    using assms(4,5) by (simp split: if_splits)
  show ?thesis
    unfolding handleAuthCallback_try_def Let_def a b
    using assms(3,6,7,8) by (simp add: truthy_def)
qed

text \<open>
  C10, as amended. When the token exchange succeeds and fetching the user information
  fails, the call throws the classified error (the rate-limit message if the failure's
  message contains \<^verbatim>\<open>Too Many Requests\<close> or \<^verbatim>\<open>429\<close>, the wrapped message otherwise), and
  the secrets written after the exchange stay: the handler's flush stores the new access
  token and user id, \<^verbatim>\<open>getAccessToken\<close> returns the new token, and \<^verbatim>\<open>isAuthenticated\<close> is
  true exactly when that token is not empty.
\<close>

theorem handleAuthCallback_no_rollback:
  assumes "\<not> processingAuthCallback s" and "lastProcessedCode s \<noteq> Some code"
    and "storedState = (if truthy (asString (getGlobalStateKey s ''vv:authState''))
                        then asString (getGlobalStateKey s ''vv:authState'')
                        else asString (globalState s ''vv:authState''))"
    and "storedState = Some state" and "state \<noteq> []"
    and "codeVerifier = (if truthy (asString (getGlobalStateKey s ''vv:codeVerifier''))
                         then asString (getGlobalStateKey s ''vv:codeVerifier'')
                         else asString (globalState s ''vv:codeVerifier''))"
    and "codeVerifier = Some verifier" and "verifier \<noteq> []"
    and "exchangeCodeForToken e code verifier state = Inr authInfo"
    and "getUserInfo e (accessToken authInfo) (userId authInfo) = Inl err"
  shows "fst (handleAuthCallback e code state s) =
           Inl (Error (if includes_str (message err) ''Too Many Requests'' \<or> includes_str (message err) ''429''
                       then ''Authentication rate limit exceeded. Please wait a moment and try logging in again.''
                       else ''Authentication failed: '' @ message err))
       \<and> getAccessToken (snd (handleAuthCallback e code state s)) = Some (accessToken authInfo)
       \<and> secrets (snd (handleAuthCallback e code state s)) ''vv:accessToken'' = Some (accessToken authInfo)
       \<and> secrets (snd (handleAuthCallback e code state s)) ''vv:userId'' = Some (toString (userId authInfo))
       \<and> isAuthenticated (snd (handleAuthCallback e code state s)) = (accessToken authInfo \<noteq> [])"
proof -
  let ?s = "s\<lparr>processingAuthCallback := True\<rparr>"
  have "handleAuthCallback_try e code state ?s =
          (Inl err,
           setSecret ''vv:userId'' (Some (toString (userId authInfo)))
             (setSecret ''vv:accessToken'' (Some (accessToken authInfo))
                (?s\<lparr>calls := calls ?s @ [ExchangeCodeForToken code verifier state]\<rparr>))
             \<lparr>calls := calls ?s @ [ExchangeCodeForToken code verifier state,
                                 GetUserInfo (accessToken authInfo) (userId authInfo)]\<rparr>)"
    using assms(3-10)
    by (intro handleAuthCallback_try_userInfo_fails[where storedState = storedState and codeVerifier = codeVerifier])
      (simp_all add: getGlobalStateKey_def)
  then show ?thesis
    using assms(1,2)
    by (simp add: handleAuthCallback_def Let_def getAccessToken_def isAuthenticated_def getSecretKey_def truthy_def
        del: includes_str.simps)
qed

theorem handleAuthCallback_no_rollback_witness:
  "\<not> processingAuthCallback example_pending \<and> lastProcessedCode example_pending \<noteq> Some ''abc''
   \<and> exchangeCodeForToken (example_env\<lparr>getUserInfo := \<lambda>token uid. Inl (Error ''HTTP 500'')\<rparr>) ''abc'' ''V'' ''S''
        = Inr \<lparr>accessToken = ''token-1'', userId = 42\<rparr>
   \<and> getUserInfo (example_env\<lparr>getUserInfo := \<lambda>token uid. Inl (Error ''HTTP 500'')\<rparr>) ''token-1'' 42
        = Inl (Error ''HTTP 500'')
   \<and> fst (handleAuthCallback (example_env\<lparr>getUserInfo := \<lambda>token uid. Inl (Error ''HTTP 500'')\<rparr>)
            ''abc'' ''S'' example_pending) = Inl (Error ''Authentication failed: HTTP 500'')
   \<and> getAccessToken (snd (handleAuthCallback (example_env\<lparr>getUserInfo := \<lambda>token uid. Inl (Error ''HTTP 500'')\<rparr>)
            ''abc'' ''S'' example_pending)) = Some ''token-1''
   \<and> secrets (snd (handleAuthCallback (example_env\<lparr>getUserInfo := \<lambda>token uid. Inl (Error ''HTTP 500'')\<rparr>)
            ''abc'' ''S'' example_pending)) ''vv:userId'' = Some ''42''
   \<and> isAuthenticated (snd (handleAuthCallback (example_env\<lparr>getUserInfo := \<lambda>token uid. Inl (Error ''HTTP 500'')\<rparr>)
            ''abc'' ''S'' example_pending))"
  using handleAuthCallback_no_rollback
    [where s = example_pending and code = "''abc''" and state = "''S''" and verifier = "''V''"
       and storedState = "Some ''S''" and codeVerifier = "Some ''V''"
       and authInfo = "\<lparr>accessToken = ''token-1'', userId = 42\<rparr>" and err = "Error ''HTTP 500''"
       and e = "example_env\<lparr>getUserInfo := \<lambda>token uid. Inl (Error ''HTTP 500'')\<rparr>"]
  by (simp add: example_defs toString_def digits.simps)

text \<open>
  The claim as first stated, with the wrapped error for every such failure, does not hold
  when fetching the user information fails with a message that mentions \<^verbatim>\<open>429\<close>.
\<close>

theorem handleAuthCallback_no_rollback_counterexample:
  "exchangeCodeForToken (example_env\<lparr>getUserInfo := \<lambda>token uid. Inl (Error ''HTTP 429'')\<rparr>) ''abc'' ''V'' ''S''
        = Inr \<lparr>accessToken = ''token-1'', userId = 42\<rparr>
   \<and> getUserInfo (example_env\<lparr>getUserInfo := \<lambda>token uid. Inl (Error ''HTTP 429'')\<rparr>) ''token-1'' 42
        = Inl (Error ''HTTP 429'')
   \<and> fst (handleAuthCallback (example_env\<lparr>getUserInfo := \<lambda>token uid. Inl (Error ''HTTP 429'')\<rparr>)
            ''abc'' ''S'' example_pending)
        = Inl (Error ''Authentication rate limit exceeded. Please wait a moment and try logging in again.'')
   \<and> fst (handleAuthCallback (example_env\<lparr>getUserInfo := \<lambda>token uid. Inl (Error ''HTTP 429'')\<rparr>)
            ''abc'' ''S'' example_pending)
        \<noteq> Inl (Error (''Authentication failed: '' @ ''HTTP 429''))"
  by (simp add: handleAuthCallback_def handleAuthCallback_try_def example_defs)

subsection \<open>Groups\<close>

lemma sendEach_attempts:
  "attempts (sendEach e a subs s) = attempts s @ map (\<lambda>sub. (sub, a, responseStream e sub)) subs"
  by (induction subs arbitrary: s) (simp_all add: Let_def unsubscribe_def split: outcome.splits)

lemma sendAuthStatusUpdate_attempts:
  "attempts (sendAuthStatusUpdate e s) =
     attempts s @ map (\<lambda>sub. (sub, getInfo s, responseStream e sub)) (activeAuthStatusUpdateSubscriptions s)"
  by (simp add: sendAuthStatusUpdate_def sendEach_attempts)

lemma applyGroupConfig_stores:
  "secretsCache (applyGroupConfig e g s) = (secretsCache s)(''apiKey'' := apiKey g)"
  "secrets (applyGroupConfig e g s) ''apiKey'' = apiKey g"
  "globalStateCache (applyGroupConfig e g s) ''planModeApiModelId'' = map_option VString (defaultModelId g)"
  "globalStateCache (applyGroupConfig e g s) ''actModeApiModelId'' = map_option VString (defaultModelId g)"
  "globalState (applyGroupConfig e g s) ''planModeApiModelId'' = map_option VString (defaultModelId g)"
  "globalState (applyGroupConfig e g s) ''actModeApiModelId'' = map_option VString (defaultModelId g)"
  "globalStateCache (applyGroupConfig e g s) ''anthropicBaseUrl'' =
     (if process_env e ''IS_DEV'' = Some ''true''
      then (if truthy (process_env e ''DEV_BASE_URL'') then map_option VString (process_env e ''DEV_BASE_URL'')
            else Some (VString ''http://127.0.0.1:3000''))
      else if truthy (apiBaseUrl g) then map_option VString (apiBaseUrl g)
      else globalStateCache s ''anthropicBaseUrl'')"
  "k \<noteq> ''planModeApiModelId'' \<Longrightarrow> k \<noteq> ''actModeApiModelId'' \<Longrightarrow> k \<noteq> ''anthropicBaseUrl'' \<Longrightarrow>
     globalStateCache (applyGroupConfig e g s) k = globalStateCache s k"
  "k \<noteq> ''planModeApiModelId'' \<Longrightarrow> k \<noteq> ''actModeApiModelId'' \<Longrightarrow> k \<noteq> ''anthropicBaseUrl'' \<Longrightarrow>
     globalState (applyGroupConfig e g s) k = globalState (flushPendingState s) k"
  by (simp_all add: applyGroupConfig_def Let_def truthy_def)

lemma find_first_Some: "find_first P xs = Some x \<Longrightarrow> x \<in> set xs \<and> P x"
  by (induction xs) (auto split: if_splits)

lemma filter_type_distinct:
  "distinct (map type xs) \<Longrightarrow> x \<in> set xs \<Longrightarrow> filter (\<lambda>g. type g = type x) xs = [x]"
proof (induction xs)
  case Nil
  then show ?case by simp
next
  case (Cons y ys)
  show ?case
  proof (cases "y = x")
    case True
    from Cons.prems(1) have "\<forall>g \<in> set ys. type g \<noteq> type y" by (auto simp: image_iff)
    then have "filter (\<lambda>g. type g = type y) ys = []" by (simp add: filter_empty_conv)
    with True show ?thesis by simp
  next
    case False
    with Cons.prems have "x \<in> set ys" and "type y \<noteq> type x" by (auto simp: image_iff)
    with Cons show ?thesis by simp
  qed
qed

lemma filter_isDefault_updated:
  "filter isDefault (map (\<lambda>g. g\<lparr>isDefault := (type g = groupType)\<rparr>) xs) =
     map (\<lambda>g. g\<lparr>isDefault := True\<rparr>) (filter (\<lambda>g. type g = groupType) xs)"
  by (induction xs) simp_all

lemma hostApiSettings_applyGroupConfig:
  "hostApiSettings (applyGroupConfig e g s) =
     (apiKey g, map_option VString (defaultModelId g), map_option VString (defaultModelId g),
      if process_env e ''IS_DEV'' = Some ''true''
      then (if truthy (process_env e ''DEV_BASE_URL'') then map_option VString (process_env e ''DEV_BASE_URL'')
            else Some (VString ''http://127.0.0.1:3000''))
      else if truthy (apiBaseUrl g) then map_option VString (apiBaseUrl g)
      else getGlobalStateKey s ''anthropicBaseUrl'')"
  by (simp add: hostApiSettings_def getSecretKey_def getGlobalStateKey_def applyGroupConfig_stores)

text \<open>
  C5. \<^verbatim>\<open>switchGroup\<close> with no stored configuration, with no group of the requested type, or
  with a group of that type that has no API key, throws the corresponding error and
  leaves the whole state as it was: the stored configuration, the host's API settings
  and everything else.
\<close>

theorem switchGroup_rejected:
  "(case getGroupConfig s of
      None \<Rightarrow> switchGroup e groupType s = (Inl (Error ''Group config not found. Please login first.''), s)
    | Some groupConfig \<Rightarrow>
        (case find_first (\<lambda>g. type g = groupType) groupConfig of
           None \<Rightarrow>
             switchGroup e groupType s =
               (Inl (Error (''Group '' @ [CHR 0x22] @ groupType @ [CHR 0x22] @ '' not found'')), s)
         | Some targetGroup \<Rightarrow>
             \<not> truthy (apiKey targetGroup) \<longrightarrow>
             switchGroup e groupType s =
               (Inl (Error (''Group '' @ [CHR 0x22] @ groupType @ [CHR 0x22]
                        @ '' has no API key configured. Please configure it first.'')), s)))"
  by (simp add: switchGroup_def getGroupConfig_def split: option.splits)

theorem switchGroup_rejected_witness:
  "getGroupConfig example_logged_in = Some example_groups
   \<and> find_first (\<lambda>g. type g = ''weekly'') example_groups = None
   \<and> switchGroup example_env ''weekly'' example_logged_in =
        (Inl (Error (''Group '' @ [CHR 0x22] @ ''weekly'' @ [CHR 0x22] @ '' not found'')), example_logged_in)
   \<and> find_first (\<lambda>g. type g = ''discount'') example_groups = Some (example_groups ! 1)
   \<and> \<not> truthy (apiKey (example_groups ! 1))
   \<and> switchGroup example_env ''discount'' example_logged_in =
        (Inl (Error (''Group '' @ [CHR 0x22] @ ''discount'' @ [CHR 0x22]
                 @ '' has no API key configured. Please configure it first.'')), example_logged_in)"
  using switchGroup_rejected [where s = example_logged_in and e = example_env and groupType = "''weekly''"]
    switchGroup_rejected [where s = example_logged_in and e = example_env and groupType = "''discount''"]
  by (simp add: example_defs)

text \<open>
  C6, as amended. When the first group of the requested type has an API key,
  \<^verbatim>\<open>switchGroup\<close> stores (cache and context) the configuration in which a group is the
  default exactly when its type is the requested one, which is the selected group alone
  when the types are distinct; the selected group's key and model become the host's key
  and its plan and act models; the base URL becomes the development URL when \<^verbatim>\<open>IS_DEV\<close> is
  \<^verbatim>\<open>true\<close>, else the group's URL when it has one, and is left alone otherwise; nothing is
  left unflushed and every subscriber is sent the status.
\<close>

theorem switchGroup_applies:
  assumes "getGroupConfig s = Some groupConfig"
    and "find_first (\<lambda>g. type g = groupType) groupConfig = Some targetGroup"
    and "truthy (apiKey targetGroup)"
    and "updatedConfig = map (\<lambda>g. g\<lparr>isDefault := (type g = groupType)\<rparr>) groupConfig"
    and "s' = snd (switchGroup e groupType s)"
  shows "fst (switchGroup e groupType s) = Inr ()
       \<and> getGroupConfig s' = Some updatedConfig
       \<and> asGroupConfig (globalState s' ''vvGroupConfig'') = Some updatedConfig
       \<and> map isDefault updatedConfig = map (\<lambda>g. type g = groupType) groupConfig
       \<and> (distinct (map type groupConfig) \<longrightarrow> filter isDefault updatedConfig = [targetGroup\<lparr>isDefault := True\<rparr>])
       \<and> getSecretKey s' ''apiKey'' = apiKey targetGroup
       \<and> secrets s' ''apiKey'' = apiKey targetGroup
       \<and> getGlobalStateKey s' ''planModeApiModelId'' = map_option VString (defaultModelId targetGroup)
       \<and> globalState s' ''planModeApiModelId'' = map_option VString (defaultModelId targetGroup)
       \<and> getGlobalStateKey s' ''actModeApiModelId'' = map_option VString (defaultModelId targetGroup)
       \<and> globalState s' ''actModeApiModelId'' = map_option VString (defaultModelId targetGroup)
       \<and> getGlobalStateKey s' ''anthropicBaseUrl'' =
            (if process_env e ''IS_DEV'' = Some ''true''
             then (if truthy (process_env e ''DEV_BASE_URL'') then map_option VString (process_env e ''DEV_BASE_URL'')
                   else Some (VString ''http://127.0.0.1:3000''))
             else if truthy (apiBaseUrl targetGroup) then map_option VString (apiBaseUrl targetGroup)
             else getGlobalStateKey s ''anthropicBaseUrl'')
       \<and> pendingGlobalState s' = {} \<and> pendingSecrets s' = {}
       \<and> attempts s' = attempts s @ map (\<lambda>sub. (sub, getInfo s, responseStream e sub))
                                        (activeAuthStatusUpdateSubscriptions s)"
proof -
  let ?s1 = "setGlobalState ''vvGroupConfig'' (Some (VGroupConfig updatedConfig)) s"
  have sw: "switchGroup e groupType s =
              (Inr (), sendAuthStatusUpdate e (flushPendingState (applyGroupConfig e targetGroup ?s1)))"
    using assms(1-4) by (simp add: switchGroup_def getGroupConfig_def Let_def)
  have info: "getInfo (flushPendingState (applyGroupConfig e targetGroup ?s1)) = getInfo s"
    by (simp add: getInfo_def getGlobalStateKey_def applyGroupConfig_stores)
  have target: "targetGroup \<in> set groupConfig" and ty: "type targetGroup = groupType"
    using find_first_Some[OF assms(2)] by simp_all
  have one: "distinct (map type groupConfig) \<longrightarrow> filter isDefault updatedConfig = [targetGroup\<lparr>isDefault := True\<rparr>]"
    using filter_type_distinct[of groupConfig targetGroup] target ty
    by (simp add: assms(4) filter_isDefault_updated)
  have flags: "map isDefault updatedConfig = map (\<lambda>g. type g = groupType) groupConfig"
    by (simp add: assms(4))
  have cfg: "getGroupConfig s' = Some updatedConfig"
    "asGroupConfig (globalState s' ''vvGroupConfig'') = Some updatedConfig"
    by (simp_all add: assms(5) sw getGroupConfig_def getGlobalStateKey_def applyGroupConfig_stores asGroupConfig_def)
  have key: "getSecretKey s' ''apiKey'' = apiKey targetGroup" "secrets s' ''apiKey'' = apiKey targetGroup"
    by (simp_all add: assms(5) sw getSecretKey_def applyGroupConfig_stores)
  have model: "getGlobalStateKey s' ''planModeApiModelId'' = map_option VString (defaultModelId targetGroup)"
    "globalState s' ''planModeApiModelId'' = map_option VString (defaultModelId targetGroup)"
    "getGlobalStateKey s' ''actModeApiModelId'' = map_option VString (defaultModelId targetGroup)"
    "globalState s' ''actModeApiModelId'' = map_option VString (defaultModelId targetGroup)"
    by (simp_all add: assms(5) sw getGlobalStateKey_def applyGroupConfig_stores)
  have base: "getGlobalStateKey s' ''anthropicBaseUrl'' =
            (if process_env e ''IS_DEV'' = Some ''true''
             then (if truthy (process_env e ''DEV_BASE_URL'') then map_option VString (process_env e ''DEV_BASE_URL'')
                   else Some (VString ''http://127.0.0.1:3000''))
             else if truthy (apiBaseUrl targetGroup) then map_option VString (apiBaseUrl targetGroup)
             else getGlobalStateKey s ''anthropicBaseUrl'')"
    by (simp add: assms(5) sw getGlobalStateKey_def applyGroupConfig_stores)
  have rest: "pendingGlobalState s' = {}" "pendingSecrets s' = {}"
    "attempts s' = attempts s @ map (\<lambda>sub. (sub, getInfo s, responseStream e sub))
                                        (activeAuthStatusUpdateSubscriptions s)"
    by (simp_all add: assms(5) sw sendAuthStatusUpdate_attempts info)
  from sw flags one cfg key model base rest show ?thesis by simp
qed

theorem switchGroup_applies_witness:
  "getGroupConfig example_logged_in = Some example_groups
   \<and> find_first (\<lambda>g. type g = ''daily'') example_groups = Some (example_groups ! 0)
   \<and> truthy (apiKey (example_groups ! 0))
   \<and> fst (switchGroup example_env ''daily'' example_logged_in) = Inr ()
   \<and> map_option (map isDefault) (getGroupConfig (snd (switchGroup example_env ''daily'' example_logged_in)))
        = Some [True, False]
   \<and> getSecretKey (snd (switchGroup example_env ''daily'' example_logged_in)) ''apiKey'' = Some ''key-daily''
   \<and> getGlobalStateKey (snd (switchGroup example_env ''daily'' example_logged_in)) ''anthropicBaseUrl''
        = Some (VString ''https://daily.example'')"
  using switchGroup_applies [where s = example_logged_in and e = example_env and groupType = "''daily''"
      and groupConfig = example_groups and targetGroup = "example_groups ! 0", OF _ _ _ refl refl]
  by (simp add: example_defs)

text \<open>
  The claim as first stated fails in development mode with two groups of one type: both
  become the default, and the base URL is the development URL, not the group's.
\<close>

theorem switchGroup_applies_counterexample:
  "getGroupConfig (setGlobalState ''vvGroupConfig''
        (Some (VGroupConfig [example_groups ! 0, (example_groups ! 0)\<lparr>apiKey := Some ''key-2''\<rparr>])) example_logged_in)
     = Some [example_groups ! 0, (example_groups ! 0)\<lparr>apiKey := Some ''key-2''\<rparr>]
   \<and> type (example_groups ! 0) = ''daily'' \<and> apiKey (example_groups ! 0) = Some ''key-daily''
   \<and> apiBaseUrl (example_groups ! 0) = Some ''https://daily.example''
   \<and> fst (switchGroup (example_env\<lparr>process_env := [''IS_DEV'' \<mapsto> ''true'']\<rparr>) ''daily''
        (setGlobalState ''vvGroupConfig''
           (Some (VGroupConfig [example_groups ! 0, (example_groups ! 0)\<lparr>apiKey := Some ''key-2''\<rparr>])) example_logged_in))
       = Inr ()
   \<and> map_option (map isDefault) (getGroupConfig (snd (switchGroup (example_env\<lparr>process_env := [''IS_DEV'' \<mapsto> ''true'']\<rparr>) ''daily''
        (setGlobalState ''vvGroupConfig''
           (Some (VGroupConfig [example_groups ! 0, (example_groups ! 0)\<lparr>apiKey := Some ''key-2''\<rparr>])) example_logged_in))))
       = Some [True, True]
   \<and> getGlobalStateKey (snd (switchGroup (example_env\<lparr>process_env := [''IS_DEV'' \<mapsto> ''true'']\<rparr>) ''daily''
        (setGlobalState ''vvGroupConfig''
           (Some (VGroupConfig [example_groups ! 0, (example_groups ! 0)\<lparr>apiKey := Some ''key-2''\<rparr>])) example_logged_in)))
         ''anthropicBaseUrl''
       = Some (VString ''http://127.0.0.1:3000'')"
  by (simp add: switchGroup_def applyGroupConfig_stores example_defs)

subsection \<open>The default group after a login\<close>

lemma handleAuthCallback_userConfig_cache:
  "k \<noteq> ''vvUserConfig'' \<Longrightarrow>
     globalStateCache (handleAuthCallback_userConfig e a s) k = globalStateCache s k"
  by (simp add: handleAuthCallback_userConfig_def Let_def split: sum.splits)

lemma handleAuthCallback_groupConfig_fetched:
  assumes "getGroupTokens e (accessToken a) (userId a) = Inr groupConfig"
  shows "handleAuthCallback_groupConfig e a s =
           (let s = setGlobalState ''vvGroupConfig'' (Some (VGroupConfig groupConfig))
                      (s\<lparr>calls := calls s @ [GetGroupTokens (accessToken a) (userId a)]\<rparr>)
            in case find_first isDefault groupConfig of
                 None \<Rightarrow> s
               | Some defaultGroup \<Rightarrow>
                   if truthy (apiKey defaultGroup) then applyGroupConfig e defaultGroup s else s)"
  using assms by (simp add: handleAuthCallback_groupConfig_def Let_def)

lemma handleAuthCallback_try_success_shape:
  assumes "handleAuthCallback_try e code state s = (Inr u, s2)"
  obtains verifier authInfo userInfo where
    "(if truthy (asString (getGlobalStateKey s ''vv:codeVerifier''))
      then asString (getGlobalStateKey s ''vv:codeVerifier'')
      else asString (globalState s ''vv:codeVerifier'')) = Some verifier"
    "exchangeCodeForToken e code verifier state = Inr authInfo"
    "s2 = sendAuthStatusUpdate e
          (flushPendingState
            (setGlobalState ''vv:codeVerifier'' None
              (setGlobalState ''vv:authState'' None
                (flushPendingState
                  (handleAuthCallback_groupConfig e authInfo
                    (handleAuthCallback_userConfig e authInfo
                      (setGlobalState ''vvUserInfo'' (Some (VUserInfo userInfo))
                        (setSecret ''vv:userId'' (Some (toString (userId authInfo)))
                          (setSecret ''vv:accessToken'' (Some (accessToken authInfo))
                            (s\<lparr>calls := calls s @ [ExchangeCodeForToken code verifier state]\<rparr>))
                         \<lparr>calls := calls s @ [ExchangeCodeForToken code verifier state,
                             GetUserInfo (accessToken authInfo) (userId authInfo)]\<rparr>)))))))
           \<lparr>lastProcessedCode := Some code, authenticated := True\<rparr>)"
proof (cases "truthy (asString (getGlobalStateKey s ''vv:codeVerifier''))")
  case True
  with assms that show ?thesis
    by (simp add: handleAuthCallback_try_def Let_def split: if_splits option.splits sum.splits) blast+
next
  case False
  with assms that show ?thesis
    by (simp add: handleAuthCallback_try_def Let_def split: if_splits option.splits sum.splits) blast+
qed

text \<open>
  C4, as amended. After a successful callback during which the fetch of the group
  configuration succeeded (the fetch the call makes, with the token and user id that the
  exchange returned for the stored verifier), the stored configuration (cache and
  context) is the one sent, with the default flags as sent; if it has a group flagged as
  default and the first such group has an API key, that group's key, model and base URL
  (as \<^verbatim>\<open>applyGroupConfig\<close> chooses it) are the host's API settings; otherwise the host's API
  settings are as before the call.
\<close>

theorem handleAuthCallback_default_group:
  assumes "\<not> processingAuthCallback s" and "lastProcessedCode s \<noteq> Some code"
    and "fst (handleAuthCallback e code state s) = Inr ()"
    and "codeVerifier = (if truthy (asString (getGlobalStateKey s ''vv:codeVerifier''))
                         then asString (getGlobalStateKey s ''vv:codeVerifier'')
                         else asString (globalState s ''vv:codeVerifier''))"
    and "codeVerifier = Some verifier"
    and "exchangeCodeForToken e code verifier state = Inr authInfo"
    and "getGroupTokens e (accessToken authInfo) (userId authInfo) = Inr groupConfig"
    and "s' = snd (handleAuthCallback e code state s)"
  shows "getGroupConfig s' = Some groupConfig
       \<and> asGroupConfig (globalState s' ''vvGroupConfig'') = Some groupConfig
       \<and> hostApiSettings s' =
           (case find_first isDefault groupConfig of
              None \<Rightarrow> hostApiSettings s
            | Some defaultGroup \<Rightarrow>
                if truthy (apiKey defaultGroup)
                then (apiKey defaultGroup, map_option VString (defaultModelId defaultGroup),
                      map_option VString (defaultModelId defaultGroup),
                      if process_env e ''IS_DEV'' = Some ''true''
                      then (if truthy (process_env e ''DEV_BASE_URL'')
                            then map_option VString (process_env e ''DEV_BASE_URL'')
                            else Some (VString ''http://127.0.0.1:3000''))
                      else if truthy (apiBaseUrl defaultGroup) then map_option VString (apiBaseUrl defaultGroup)
                      else getGlobalStateKey s ''anthropicBaseUrl'')
                else hostApiSettings s)"
proof -
  let ?s = "s\<lparr>processingAuthCallback := True\<rparr>"
  obtain r s2 where t: "handleAuthCallback_try e code state ?s = (r, s2)"
    by (cases "handleAuthCallback_try e code state ?s")
  with assms(1-3) have r: "r = Inr ()"
    by (cases r) (simp_all add: handleAuthCallback_def Let_def del: includes_str.simps split: if_splits)
  with assms(1,2,8) t have s': "s' = s2\<lparr>processingAuthCallback := False\<rparr>"
    by (simp add: handleAuthCallback_def Let_def)
  from t r obtain verifier' authInfo' userInfo where
    v: "(if truthy (asString (getGlobalStateKey ?s ''vv:codeVerifier''))
         then asString (getGlobalStateKey ?s ''vv:codeVerifier'')
         else asString (globalState ?s ''vv:codeVerifier'')) = Some verifier'"
    and x: "exchangeCodeForToken e code verifier' state = Inr authInfo'"
    and s2p: "s2 = sendAuthStatusUpdate e
          (flushPendingState
            (setGlobalState ''vv:codeVerifier'' None
              (setGlobalState ''vv:authState'' None
                (flushPendingState
                  (handleAuthCallback_groupConfig e authInfo'
                    (handleAuthCallback_userConfig e authInfo'
                      (setGlobalState ''vvUserInfo'' (Some (VUserInfo userInfo))
                        (setSecret ''vv:userId'' (Some (toString (userId authInfo')))
                          (setSecret ''vv:accessToken'' (Some (accessToken authInfo'))
                            (?s\<lparr>calls := calls ?s @ [ExchangeCodeForToken code verifier' state]\<rparr>))
                         \<lparr>calls := calls ?s @ [ExchangeCodeForToken code verifier' state,
                             GetUserInfo (accessToken authInfo') (userId authInfo')]\<rparr>)))))))
           \<lparr>lastProcessedCode := Some code, authenticated := True\<rparr>)"
    using handleAuthCallback_try_success_shape[of e code state ?s "()" s2] by blast
  have "verifier' = verifier"
    using v assms(4,5) by (simp add: getGlobalStateKey_def split: if_splits)
  with x assms(6) have "authInfo' = authInfo" by simp
  note s2 = s2p[unfolded \<open>verifier' = verifier\<close> \<open>authInfo' = authInfo\<close>]
  define s1 where "s1 = handleAuthCallback_userConfig e authInfo
                      (setGlobalState ''vvUserInfo'' (Some (VUserInfo userInfo))
                        (setSecret ''vv:userId'' (Some (toString (userId authInfo)))
                          (setSecret ''vv:accessToken'' (Some (accessToken authInfo))
                            (?s\<lparr>calls := calls ?s @ [ExchangeCodeForToken code verifier state]\<rparr>))
                         \<lparr>calls := calls ?s @ [ExchangeCodeForToken code verifier state,
                             GetUserInfo (accessToken authInfo) (userId authInfo)]\<rparr>))"
  define s3 where "s3 = handleAuthCallback_groupConfig e authInfo s1"
  have s1: "hostApiSettings s1 = hostApiSettings s" "getGlobalStateKey s1 ''anthropicBaseUrl'' = getGlobalStateKey s ''anthropicBaseUrl''"
    by (simp_all add: s1_def hostApiSettings_def getSecretKey_def getGlobalStateKey_def handleAuthCallback_userConfig_cache)
  have s2': "s2 = sendAuthStatusUpdate e
          (flushPendingState
            (setGlobalState ''vv:codeVerifier'' None
              (setGlobalState ''vv:authState'' None (flushPendingState s3)))
           \<lparr>lastProcessedCode := Some code, authenticated := True\<rparr>)"
    unfolding s3_def s1_def by (rule s2)
  have fin: "getGroupConfig s' = asGroupConfig (globalStateCache s3 ''vvGroupConfig'')"
    "globalState s' ''vvGroupConfig'' = globalState (flushPendingState s3) ''vvGroupConfig''"
    "hostApiSettings s' = hostApiSettings s3"
    by (simp_all add: s' s2' getGroupConfig_def hostApiSettings_def getSecretKey_def getGlobalStateKey_def)
  have s3: "s3 = (let s = setGlobalState ''vvGroupConfig'' (Some (VGroupConfig groupConfig))
                      (s1\<lparr>calls := calls s1 @ [GetGroupTokens (accessToken authInfo) (userId authInfo)]\<rparr>)
            in case find_first isDefault groupConfig of
                 None \<Rightarrow> s
               | Some defaultGroup \<Rightarrow>
                   if truthy (apiKey defaultGroup) then applyGroupConfig e defaultGroup s else s)"
    unfolding s3_def by (rule handleAuthCallback_groupConfig_fetched) (rule assms(7))
  have cfg: "asGroupConfig (globalStateCache s3 ''vvGroupConfig'') = Some groupConfig"
    "asGroupConfig (globalState (flushPendingState s3) ''vvGroupConfig'') = Some groupConfig"
    by (simp_all add: s3 Let_def asGroupConfig_def applyGroupConfig_stores split: option.splits)
  have host: "hostApiSettings s3 =
           (case find_first isDefault groupConfig of
              None \<Rightarrow> hostApiSettings s
            | Some defaultGroup \<Rightarrow>
                if truthy (apiKey defaultGroup)
                then (apiKey defaultGroup, map_option VString (defaultModelId defaultGroup),
                      map_option VString (defaultModelId defaultGroup),
                      if process_env e ''IS_DEV'' = Some ''true''
                      then (if truthy (process_env e ''DEV_BASE_URL'')
                            then map_option VString (process_env e ''DEV_BASE_URL'')
                            else Some (VString ''http://127.0.0.1:3000''))
                      else if truthy (apiBaseUrl defaultGroup) then map_option VString (apiBaseUrl defaultGroup)
                      else getGlobalStateKey s ''anthropicBaseUrl'')
                else hostApiSettings s)"
  proof (cases "find_first isDefault groupConfig")
    case None
    then show ?thesis
      using s1(1) by (simp add: s3 hostApiSettings_def getSecretKey_def getGlobalStateKey_def)
  next
    case (Some defaultGroup)
    show ?thesis
    proof (cases "truthy (apiKey defaultGroup)")
      case True
      with Some show ?thesis
        using s1(2) by (simp add: s3 hostApiSettings_applyGroupConfig getGlobalStateKey_def)
    next
      case False
      with Some show ?thesis
        using s1(1) by (simp add: s3 hostApiSettings_def getSecretKey_def getGlobalStateKey_def)
    qed
  qed
  from fin cfg host show ?thesis by simp
qed

theorem handleAuthCallback_default_group_witness:
  "\<not> processingAuthCallback example_pending \<and> lastProcessedCode example_pending \<noteq> Some ''abc''
   \<and> fst (handleAuthCallback
        (example_env\<lparr>getGroupTokens := \<lambda>token uid.
           if token = ''token-1'' \<and> uid = 42 then Inr example_groups else Inl (Error ''HTTP 401'')\<rparr>)
        ''abc'' ''S'' example_pending) = Inr ()
   \<and> exchangeCodeForToken
        (example_env\<lparr>getGroupTokens := \<lambda>token uid.
           if token = ''token-1'' \<and> uid = 42 then Inr example_groups else Inl (Error ''HTTP 401'')\<rparr>)
        ''abc'' ''V'' ''S'' = Inr \<lparr>accessToken = ''token-1'', userId = 42\<rparr>
   \<and> getGroupTokens
        (example_env\<lparr>getGroupTokens := \<lambda>token uid.
           if token = ''token-1'' \<and> uid = 42 then Inr example_groups else Inl (Error ''HTTP 401'')\<rparr>)
        ''token-1'' 42 = Inr example_groups
   \<and> getGroupTokens
        (example_env\<lparr>getGroupTokens := \<lambda>token uid.
           if token = ''token-1'' \<and> uid = 42 then Inr example_groups else Inl (Error ''HTTP 401'')\<rparr>)
        ''token-0'' 42 = Inl (Error ''HTTP 401'')
   \<and> find_first isDefault example_groups = Some (example_groups ! 0)
   \<and> getGroupConfig (snd (handleAuthCallback
        (example_env\<lparr>getGroupTokens := \<lambda>token uid.
           if token = ''token-1'' \<and> uid = 42 then Inr example_groups else Inl (Error ''HTTP 401'')\<rparr>)
        ''abc'' ''S'' example_pending)) = Some example_groups
   \<and> hostApiSettings (snd (handleAuthCallback
        (example_env\<lparr>getGroupTokens := \<lambda>token uid.
           if token = ''token-1'' \<and> uid = 42 then Inr example_groups else Inl (Error ''HTTP 401'')\<rparr>)
        ''abc'' ''S'' example_pending))
       = (Some ''key-daily'', Some (VString ''model-a''), Some (VString ''model-a''),
          Some (VString ''https://daily.example''))"
proof -
  have ok: "fst (handleAuthCallback
        (example_env\<lparr>getGroupTokens := \<lambda>token uid.
           if token = ''token-1'' \<and> uid = 42 then Inr example_groups else Inl (Error ''HTTP 401'')\<rparr>)
        ''abc'' ''S'' example_pending) = Inr ()"
    by (simp add: handleAuthCallback_def handleAuthCallback_try_def example_defs)
  show ?thesis
    using ok handleAuthCallback_default_group
      [where s = example_pending and code = "''abc''" and state = "''S''" and groupConfig = example_groups
        and e = "example_env\<lparr>getGroupTokens := \<lambda>token uid.
           if token = ''token-1'' \<and> uid = 42 then Inr example_groups else Inl (Error ''HTTP 401'')\<rparr>"
        and codeVerifier = "Some ''V''" and verifier = "''V''"
        and authInfo = "\<lparr>accessToken = ''token-1'', userId = 42\<rparr>", OF _ _ ok _ refl _ _ refl]
    by (simp add: example_defs)
qed

text \<open>
  The claim as first stated fails when the provider sends a non-empty configuration
  without a default group: the callback succeeds and no stored group is the default.
\<close>

theorem handleAuthCallback_default_group_counterexample:
  "getGroupTokens (example_env\<lparr>getGroupTokens := \<lambda>token uid. Inr [example_groups ! 1]\<rparr>) ''token-1'' 42
     = Inr [example_groups ! 1]
   \<and> fst (handleAuthCallback
        (example_env\<lparr>getGroupTokens := \<lambda>token uid. Inr [example_groups ! 1]\<rparr>) ''abc'' ''S'' example_pending) = Inr ()
   \<and> asGroupConfig (globalState (snd (handleAuthCallback
        (example_env\<lparr>getGroupTokens := \<lambda>token uid. Inr [example_groups ! 1]\<rparr>) ''abc'' ''S'' example_pending))
          ''vvGroupConfig'') = Some [example_groups ! 1]
   \<and> filter isDefault [example_groups ! 1] = []"
  by (simp add: handleAuthCallback_def handleAuthCallback_try_def handleAuthCallback_groupConfig_def
      handleAuthCallback_userConfig_def example_defs)

subsection \<open>The login request\<close>

lemma searchParams_get_set_same: "searchParams_get k (searchParams_set k v ps) = Some v"
  by (induction ps) (auto simp: searchParams_get_def)

lemma searchParams_get_set_other:
  "k' \<noteq> k \<Longrightarrow> searchParams_get k' (searchParams_set k v ps) = searchParams_get k' ps"
proof (induction ps)
  case Nil
  then show ?case by (simp add: searchParams_get_def)
next
  case (Cons p ps)
  have "map_of (filter (\<lambda>q. fst q \<noteq> k) ps) k' = map_of ps k'"
    using Cons.prems by (induction ps) auto
  with Cons show ?case
    by (cases p) (auto simp: searchParams_get_def)
qed

text \<open>
  C7. \<^verbatim>\<open>createAuthRequest\<close> leaves the generated state and verifier in the cache and in the
  context with nothing unflushed; if either value read back is missing it throws the
  retry error and opens nothing; and a URL it returns carries the generated state as
  \<^verbatim>\<open>state\<close>, the challenge of the generated verifier as \<^verbatim>\<open>code_challenge\<close> and the
  callback URI as \<^verbatim>\<open>redirect_uri\<close>, and is the URL it opened.
\<close>

theorem createAuthRequest_session:
  assumes "r = createAuthRequest e s"
  shows "getGlobalStateKey (snd r) ''vv:authState'' = Some (VString (generateState e))
       \<and> getGlobalStateKey (snd r) ''vv:codeVerifier'' = Some (VString (generateCodeVerifier e))
       \<and> globalState (snd r) ''vv:authState'' = Some (VString (generateState e))
       \<and> globalState (snd r) ''vv:codeVerifier'' = Some (VString (generateCodeVerifier e))
       \<and> pendingGlobalState (snd r) = {}
       \<and> (\<not> truthy (asString (getGlobalStateKey (snd r) ''vv:authState''))
            \<or> \<not> truthy (asString (getGlobalStateKey (snd r) ''vv:codeVerifier'')) \<longrightarrow>
            fst r = Inl (Error ''Failed to save authentication state. Please try again.'')
            \<and> opened (snd r) = opened s)
       \<and> (\<forall>authUrl. fst r = Inr authUrl \<longrightarrow>
            searchParams_get ''state'' (searchParams authUrl) = Some (generateState e)
            \<and> searchParams_get ''code_challenge'' (searchParams authUrl)
                 = Some (generateCodeChallenge e (generateCodeVerifier e))
            \<and> searchParams_get ''redirect_uri'' (searchParams authUrl)
                 = Some ''vscode://PiuQiuPiaQia.vvcode/vv-callback''
            \<and> opened (snd r) = opened s @ [authUrl])"
  unfolding assms
  by (auto simp: createAuthRequest_def Let_def getGlobalStateKey_def asString_def truthy_def
      searchParams_get_set_same searchParams_get_set_other PUBLISHER_def EXTENSION_ID_def
      split: sum.splits)

theorem createAuthRequest_session_witness:
  "fst (createAuthRequest example_env example_state) =
     Inr \<lparr>href = ''https://vvcode.top/oauth/vscode/login'',
          searchParams = [(''state'', ''S''), (''code_challenge'', ''challenge-of-V''),
                          (''redirect_uri'', ''vscode://PiuQiuPiaQia.vvcode/vv-callback'')]\<rparr>
   \<and> globalState (snd (createAuthRequest example_env example_state)) ''vv:authState'' = Some (VString ''S'')
   \<and> opened (snd (createAuthRequest example_env example_state)) =
       [\<lparr>href = ''https://vvcode.top/oauth/vscode/login'',
          searchParams = [(''state'', ''S''), (''code_challenge'', ''challenge-of-V''),
                          (''redirect_uri'', ''vscode://PiuQiuPiaQia.vvcode/vv-callback'')]\<rparr>]
   \<and> \<not> truthy (asString (getGlobalStateKey (snd (createAuthRequest (example_env\<lparr>generateState := []\<rparr>) example_state))
                  ''vv:authState''))
   \<and> fst (createAuthRequest (example_env\<lparr>generateState := []\<rparr>) example_state) =
       Inl (Error ''Failed to save authentication state. Please try again.'')"
  using createAuthRequest_session [where e = example_env and s = example_state, OF refl]
    createAuthRequest_session [where e = "example_env\<lparr>generateState := []\<rparr>" and s = example_state, OF refl]
  by (simp add: createAuthRequest_def AUTH_PAGE_URL_def PUBLISHER_def EXTENSION_ID_def example_defs)

subsection \<open>Logout\<close>

text \<open>
  C8. From any state \<^verbatim>\<open>handleDeauth\<close> returns normally; the access token, the refresh token,
  the user information, the user configuration and the two session keys are gone from
  the cache and from the context, nothing is left unflushed, \<^verbatim>\<open>getAccessToken\<close> returns
  nothing, and every subscriber is sent a status without a user.
\<close>

theorem handleDeauth_clears:
  "(let s' = snd (handleDeauth e s)
    in fst (handleDeauth e s) = Inr ()
     \<and> getSecretKey s' ''vv:accessToken'' = None \<and> secrets s' ''vv:accessToken'' = None
     \<and> getSecretKey s' ''vv:refreshToken'' = None \<and> secrets s' ''vv:refreshToken'' = None
     \<and> getGlobalStateKey s' ''vvUserInfo'' = None \<and> globalState s' ''vvUserInfo'' = None
     \<and> getGlobalStateKey s' ''vvUserConfig'' = None \<and> globalState s' ''vvUserConfig'' = None
     \<and> getGlobalStateKey s' ''vv:authState'' = None \<and> globalState s' ''vv:authState'' = None
     \<and> getGlobalStateKey s' ''vv:codeVerifier'' = None \<and> globalState s' ''vv:codeVerifier'' = None
     \<and> pendingGlobalState s' = {} \<and> pendingSecrets s' = {}
     \<and> \<not> authenticated s' \<and> getAccessToken s' = None \<and> \<not> isAuthenticated s'
     \<and> getInfo s' = \<lparr>user = None\<rparr>
     \<and> attempts s' = attempts s @ map (\<lambda>sub. (sub, \<lparr>user = None\<rparr>, responseStream e sub))
                                      (activeAuthStatusUpdateSubscriptions s))"
proof -
  define s0 where "s0 = (case getSecretKey s ''vv:accessToken'' of
                 None \<Rightarrow> s
               | Some token \<Rightarrow>
                   if truthy (getSecretKey s ''vv:accessToken'')
                   then (case logout e token of
                           Inl err \<Rightarrow> s\<lparr>calls := calls s @ [Logout token]\<rparr>
                         | Inr _ \<Rightarrow> s\<lparr>calls := calls s @ [Logout token]\<rparr>)
                   else s)"
  have s0: "attempts s0 = attempts s"
    "activeAuthStatusUpdateSubscriptions s0 = activeAuthStatusUpdateSubscriptions s"
    by (simp_all add: s0_def split: option.splits sum.splits)
  define s1 where "s1 = flushPendingState
     (setGlobalState ''vv:codeVerifier'' None (setGlobalState ''vv:authState'' None
       (setGlobalState ''vvUserConfig'' None (setGlobalState ''vvUserInfo'' None
         (setSecret ''vv:refreshToken'' None (setSecret ''vv:accessToken'' None s0))))))
     \<lparr>authenticated := False\<rparr>"
  have d: "handleDeauth e s = (Inr (), sendAuthStatusUpdate e s1)"
    by (simp add: handleDeauth_def Let_def s1_def s0_def)
  have info: "getInfo s1 = \<lparr>user = None\<rparr>"
    by (simp add: s1_def getInfo_def getGlobalStateKey_def asUserInfo_def)
  show ?thesis
    unfolding Let_def d
    by (simp add: sendAuthStatusUpdate_attempts info getInfo_def getSecretKey_def getGlobalStateKey_def
        getAccessToken_def isAuthenticated_def truthy_def asUserInfo_def)
      (simp add: s1_def s0)
qed

theorem handleDeauth_clears_witness:
  "getAccessToken example_logged_in = Some ''token-0''
   \<and> getInfo example_logged_in = \<lparr>user = Some ''alice''\<rparr>
   \<and> getAccessToken (snd (handleDeauth example_env example_logged_in)) = None
   \<and> getInfo (snd (handleDeauth example_env example_logged_in)) = \<lparr>user = None\<rparr>
   \<and> attempts (snd (handleDeauth example_env example_logged_in)) =
        [(1, \<lparr>user = None\<rparr>, Delivered), (2, \<lparr>user = None\<rparr>, Rejected (Error ''stream closed'')), (3, \<lparr>user = None\<rparr>, Delivered)]"
  using handleDeauth_clears [of example_env example_logged_in]
  by (simp add: example_defs getAccessToken_def getInfo_def asUserInfo_def)

subsection \<open>Subscriptions\<close>

lemma sendEach_subscriptions:
  "activeAuthStatusUpdateSubscriptions (sendEach e a subs s) =
     filter (\<lambda>sub. \<not> (sub \<in> set subs \<and> isThrown (responseStream e sub))) (activeAuthStatusUpdateSubscriptions s)"
proof (induction subs arbitrary: s)
  case Nil
  then show ?case by simp
next
  case (Cons x xs)
  have step: "activeAuthStatusUpdateSubscriptions (sendEach e a (x # xs) s) =
     filter (\<lambda>sub. \<not> (sub \<in> set xs \<and> isThrown (responseStream e sub)))
       (if isThrown (responseStream e x) then removeAll x (activeAuthStatusUpdateSubscriptions s)
        else activeAuthStatusUpdateSubscriptions s)"
    by (cases "responseStream e x") (simp_all add: Cons.IH Let_def unsubscribe_def)
  show ?case
    unfolding step
    by (cases "isThrown (responseStream e x)") (auto simp: removeAll_filter_not_eq intro: filter_cong)
qed

lemma sendEach_rejections:
  "rejections (sendEach e a subs s) = rejections s @ filter (\<lambda>sub. isRejected (responseStream e sub)) subs"
  by (induction subs arbitrary: s) (simp_all add: Let_def unsubscribe_def split: outcome.splits)

lemma broadcast_survivors:
  "activeAuthStatusUpdateSubscriptions (runCatchHandlers (sendAuthStatusUpdate e s)) =
     filter (\<lambda>sub. responseStream e sub = Delivered \<and> sub \<notin> set (rejections s))
       (activeAuthStatusUpdateSubscriptions s)"
proof -
  have d: "(\<not> isRejected (responseStream e x) \<and> \<not> isThrown (responseStream e x)) = (responseStream e x = Delivered)" for x
    by (cases "responseStream e x") simp_all
  show ?thesis
    unfolding runCatchHandlers_def sendAuthStatusUpdate_def
    apply (simp add: sendEach_subscriptions sendEach_rejections)
    apply (rule filter_cong)
     apply (rule refl)
    using d apply auto
    done
qed

lemma subscribeToAuthStatusUpdate_new:
  assumes "sub \<notin> set (activeAuthStatusUpdateSubscriptions s)"
  shows "attempts (snd (subscribeToAuthStatusUpdate e sub s)) = attempts s @ [(sub, getInfo s, responseStream e sub)]"
    and "activeAuthStatusUpdateSubscriptions (snd (subscribeToAuthStatusUpdate e sub s))
        = activeAuthStatusUpdateSubscriptions s @ [sub]"
  using assms
  by (simp_all add: subscribeToAuthStatusUpdate_def Let_def getInfo_def getGlobalStateKey_def split: outcome.splits)

text \<open>
  C9. A new subscriber is sent the current status once, at once, and joins the set. A
  broadcast makes one delivery attempt to every subscriber of the set, whatever the
  attempts to the others do. Once the handlers of a broadcast have run, the set holds
  exactly the subscribers whose delivery succeeded (and that had no earlier rejection
  waiting to be handled); cancelling removes a subscriber and no other.
\<close>

theorem subscription_delivery:
  "(sub \<notin> set (activeAuthStatusUpdateSubscriptions s) \<longrightarrow>
      attempts (snd (subscribeToAuthStatusUpdate e sub s)) = attempts s @ [(sub, getInfo s, responseStream e sub)]
    \<and> activeAuthStatusUpdateSubscriptions (snd (subscribeToAuthStatusUpdate e sub s))
        = activeAuthStatusUpdateSubscriptions s @ [sub])
   \<and> attempts (sendAuthStatusUpdate e s) =
       attempts s @ map (\<lambda>sub. (sub, getInfo s, responseStream e sub)) (activeAuthStatusUpdateSubscriptions s)
   \<and> activeAuthStatusUpdateSubscriptions (runCatchHandlers (sendAuthStatusUpdate e s)) =
       filter (\<lambda>sub. responseStream e sub = Delivered \<and> sub \<notin> set (rejections s))
         (activeAuthStatusUpdateSubscriptions s)
   \<and> activeAuthStatusUpdateSubscriptions (unsubscribe sub s) =
       filter (\<lambda>x. x \<noteq> sub) (activeAuthStatusUpdateSubscriptions s)"
proof (intro conjI impI)
  show "activeAuthStatusUpdateSubscriptions (unsubscribe sub s) =
       filter (\<lambda>x. x \<noteq> sub) (activeAuthStatusUpdateSubscriptions s)"
    by (simp add: unsubscribe_def removeAll_filter_not_eq) metis
qed (simp_all add: sendAuthStatusUpdate_attempts broadcast_survivors subscribeToAuthStatusUpdate_new)

theorem subscription_delivery_witness:
  "4 \<notin> set (activeAuthStatusUpdateSubscriptions example_logged_in)
   \<and> attempts (snd (subscribeToAuthStatusUpdate example_env 4 example_logged_in)) = [(4, \<lparr>user = Some ''alice''\<rparr>, Delivered)]
   \<and> activeAuthStatusUpdateSubscriptions (snd (subscribeToAuthStatusUpdate example_env 4 example_logged_in)) = [1, 2, 3, 4]
   \<and> attempts (sendAuthStatusUpdate example_env example_logged_in) =
        [(1, \<lparr>user = Some ''alice''\<rparr>, Delivered), (2, \<lparr>user = Some ''alice''\<rparr>, Rejected (Error ''stream closed'')),
         (3, \<lparr>user = Some ''alice''\<rparr>, Delivered)]
   \<and> activeAuthStatusUpdateSubscriptions (runCatchHandlers (sendAuthStatusUpdate example_env example_logged_in)) = [1, 3]
   \<and> activeAuthStatusUpdateSubscriptions (unsubscribe 3 example_logged_in) = [1, 2]"
  using subscription_delivery [of 4 example_logged_in example_env] subscription_delivery [of 3 example_logged_in example_env]
  by (simp add: example_defs getInfo_def asUserInfo_def)

end
